theory Spec2Isabelle
  imports Complex_Main
begin

section \<open>Mapty: the workout model of script.js\<close>

text \<open>
  The program is one JavaScript file: the classes \<^verbatim>\<open>Workout\<close>, \<^verbatim>\<open>Running\<close>,
  \<^verbatim>\<open>Cycling\<close> and the class \<^verbatim>\<open>App\<close> that owns the collection of workouts and
  writes it to \<^verbatim>\<open>localStorage\<close>. Each function below embeds the source function of
  the same name. Exceptions are values of type \<open>error\<close>; the mutable fields of
  \<^verbatim>\<open>App\<close> and the storage are fields of the record \<open>app\<close>, passed in and returned.
\<close>

subsection \<open>Numbers\<close>

text \<open>
  A JavaScript Number is \<^verbatim>\<open>NaN\<close>, one of the two infinities or a finite double. A
  finite double is represented by the real number it denotes; the sign of zero is outside
  the model (a zero stands for \<^verbatim>\<open>+0\<close>). Arithmetic rounds as binary64 does: to
  the nearest double, ties to the even significand, overflow to infinity, gradual
  underflow.
\<close>

datatype number = NaN | Infinity | NegInfinity | Finite real

text \<open>The integer nearest to \<open>y\<close>, the even one of the two when \<open>y\<close> is halfway.\<close>

definition round_half_even :: "real \<Rightarrow> int" where
  "round_half_even y =
     (let f = \<lfloor>y\<rfloor>; r = y - of_int f
      in if r < 1 / 2 then f else if 1 / 2 < r then f + 1 else if even f then f else f + 1)"

text \<open>
  The binary exponent of a positive real, as binary64 uses it: the \<open>e\<close> with
  \<open>2 powi e \<le> x < 2 powi (e + 1)\<close>, and \<open>- 1022\<close> for every \<open>x\<close> below the normal
  range. It is found by halving from above 1 and by doubling from below 1.
\<close>

function exp_hi :: "real \<Rightarrow> int" where
  "exp_hi x = (if 2 \<le> x then exp_hi (x / 2) + 1 else 0)"
  by pat_completeness auto
termination
proof (relation "measure (\<lambda>x. nat \<lceil>x\<rceil>)")
  show "wf (measure (\<lambda>x. nat \<lceil>x\<rceil>))" by simp
next
  fix x :: real
  assume "2 \<le> x"
  then have "x / 2 \<le> x - 1" by simp
  then have "\<lceil>x / 2\<rceil> \<le> \<lceil>x - 1\<rceil>" by (rule ceiling_mono)
  moreover from \<open>2 \<le> x\<close> have "0 < \<lceil>x\<rceil>" by simp
  ultimately show "(x / 2, x) \<in> measure (\<lambda>x. nat \<lceil>x\<rceil>)" by simp
qed

function exp_lo :: "int \<Rightarrow> real \<Rightarrow> int" where
  "exp_lo e x = (if x < 1 \<and> - 1022 < e then exp_lo (e - 1) (2 * x) else e)"
  by pat_completeness auto
termination
  by (relation "measure (\<lambda>(e, x). nat (e + 1022))") auto

declare exp_hi.simps [simp del] exp_lo.simps [simp del]

definition binade :: "real \<Rightarrow> int" where
  "binade x =
     (if 1 \<le> x then exp_hi x else if x < 2 powi (- 1022) then - 1022 else exp_lo 0 x)"

text \<open>
  Rounding a positive real to binary64. From \<open>2 ^ 1024 - 2 ^ 970\<close> on, halfway between
  the largest double and \<open>2 ^ 1024\<close>, the result is infinity. Below, the doubles of the
  binade of \<open>x\<close> are the multiples of \<open>2 powi (binade x - 52)\<close>, and \<open>x\<close> goes to the
  nearest multiple.
\<close>

definition round_pos :: "real \<Rightarrow> number" where
  "round_pos x =
     (if 2 ^ 1024 - 2 ^ 970 \<le> x then Infinity
      else (let q = 2 powi (binade x - 52)
            in Finite (q * of_int (round_half_even (x / q)))))"

fun negate :: "number \<Rightarrow> number" where
  "negate NaN = NaN"
| "negate Infinity = NegInfinity"
| "negate NegInfinity = Infinity"
| "negate (Finite r) = Finite (- r)"

definition round64 :: "real \<Rightarrow> number" where
  "round64 x =
     (if x = 0 then Finite 0 else if 0 < x then round_pos x else negate (round_pos (- x)))"

text \<open>\<^verbatim>\<open>Number.isFinite(inp)\<close>\<close>

fun isFinite :: "number \<Rightarrow> bool" where
  "isFinite (Finite r) = True"
| "isFinite _ = False"

text \<open>\<^verbatim>\<open>a > b\<close> on Numbers: every comparison with \<^verbatim>\<open>NaN\<close> is false.\<close>

fun js_gt :: "number \<Rightarrow> number \<Rightarrow> bool" where
  "js_gt NaN _ = False"
| "js_gt _ NaN = False"
| "js_gt (Finite a) (Finite b) = (b < a)"
| "js_gt Infinity Infinity = False"
| "js_gt Infinity _ = True"
| "js_gt NegInfinity _ = False"
| "js_gt (Finite a) Infinity = False"
| "js_gt (Finite a) NegInfinity = True"

text \<open>\<^verbatim>\<open>a / b\<close> on Numbers: the quotient of two finite doubles is rounded.\<close>

fun js_div :: "number \<Rightarrow> number \<Rightarrow> number" where
  "js_div NaN _ = NaN"
| "js_div _ NaN = NaN"
| "js_div (Finite a) (Finite b) =
     (if b = 0 then (if a = 0 then NaN else if 0 < a then Infinity else NegInfinity)
      else round64 (a / b))"
| "js_div (Finite a) _ = Finite 0"
| "js_div Infinity (Finite b) = (if 0 \<le> b then Infinity else NegInfinity)"
| "js_div NegInfinity (Finite b) = (if 0 \<le> b then NegInfinity else Infinity)"
| "js_div _ _ = NaN"

subsection \<open>Strings of integers\<close>

text \<open>
  The decimal digits of a natural number, most significant first: what
  \<^verbatim>\<open>Date.now() + ''\<close> and a template literal produce for an integral Number.
\<close>

definition digit_char :: "nat \<Rightarrow> char" where
  "digit_char d = ''0123456789'' ! d"

function digits :: "nat \<Rightarrow> string" where
  "digits n = (if n < 10 then [digit_char n] else digits (n div 10) @ [digit_char (n mod 10)])"
  by pat_completeness auto
termination
  by (relation "measure (\<lambda>n. n)") auto

declare digits.simps [simp del]

definition toString_int :: "int \<Rightarrow> string" where
  "toString_int i = (if i < 0 then CHR ''-'' # digits (nat (- i)) else digits (nat i))"

text \<open>\<^verbatim>\<open>s.slice(-n)\<close>: the last \<open>n\<close> characters, the whole string when it is shorter.\<close>

definition slice_last :: "nat \<Rightarrow> string \<Rightarrow> string" where
  "slice_last n s = drop (length s - n) s"

text \<open>\<^verbatim>\<open>toUpperCase()\<close> on a character of the ASCII range.\<close>

definition toUpperCase :: "char \<Rightarrow> char" where
  "toUpperCase c =
     (case map_of (zip ''abcdefghijklmnopqrstuvwxyz'' ''ABCDEFGHIJKLMNOPQRSTUVWXYZ'') c of
        None \<Rightarrow> c
      | Some u \<Rightarrow> u)"

subsection \<open>Dates and the clock\<close>

text \<open>
  The calendar is the runtime's. A \<^verbatim>\<open>Date\<close> object is represented by what the
  methods the program reaches return on it: \<^verbatim>\<open>getMonth()\<close> (0 to 11 on a valid
  date), \<^verbatim>\<open>getDate()\<close> (1 to 31) and \<^verbatim>\<open>toJSON()\<close>, the ISO string that
  \<^verbatim>\<open>JSON.stringify\<close> writes. The two clock reads of a construction,
  \<^verbatim>\<open>new Date()\<close> and \<^verbatim>\<open>Date.now()\<close>, are the record \<open>clock\<close>.
\<close>

record date =
  getMonth :: nat
  getDate :: nat
  toJSON :: string

record clock =
  new_Date :: date
  Date_now :: int

subsection \<open>The classes Workout, Running and Cycling\<close>

datatype error = TypeError | SyntaxError

text \<open>
  One record for the three classes: the fields of \<^verbatim>\<open>Workout\<close>, then the properties
  the subclasses add. A property an object does not have (yet) is \<open>None\<close>.
\<close>

record workout =
  date :: date
  id' :: string
  clicks :: nat
  coords :: "number \<times> number"
  distance :: number
  duration :: number
  type' :: "string option"
  cadence :: "number option"
  pace :: "number option"
  elevationGain :: "number option"
  speed :: "number option"
  description :: "string option"

text \<open>The field initialisers and the constructor of \<^verbatim>\<open>Workout\<close>.\<close>

definition Workout :: "clock \<Rightarrow> number \<times> number \<Rightarrow> number \<Rightarrow> number \<Rightarrow> workout" where
  "Workout clk coords0 distance0 duration0 =
     \<lparr>date = new_Date clk,
      id' = slice_last 10 (toString_int (Date_now clk)),
      clicks = 0,
      coords = coords0,
      distance = distance0,
      duration = duration0,
      type' = None, cadence = None, pace = None, elevationGain = None, speed = None,
      description = None\<rparr>"

definition months :: "string list" where
  "months = [''January'', ''February'', ''March'', ''April'', ''May'', ''June'', ''July'',
     ''August'', ''September'', ''October'', ''November'', ''December'']"

text \<open>
  \<^verbatim>\<open>_setDescription\<close>. Reading \<^verbatim>\<open>this.type[0]\<close> raises when \<^verbatim>\<open>type\<close> is
  undefined, and \<^verbatim>\<open>toUpperCase\<close> is called on undefined when it is the empty string.
  An index outside \<^verbatim>\<open>months\<close> reads undefined, which the template prints as such.
\<close>

definition setDescription :: "workout \<Rightarrow> error + workout" where
  "setDescription this =
     (case type' this of
        None \<Rightarrow> Inl TypeError
      | Some [] \<Rightarrow> Inl TypeError
      | Some (c # cs) \<Rightarrow>
          Inr (this\<lparr>description := Some
            ([toUpperCase c] @ cs @ '' on '' @
             (if getMonth (date this) < length months then months ! getMonth (date this)
              else ''undefined'') @
             '' '' @ digits (getDate (date this)))\<rparr>))"

text \<open>\<^verbatim>\<open>click()\<close>\<close>

definition click :: "workout \<Rightarrow> workout" where
  "click this = this\<lparr>clicks := clicks this + 1\<rparr>"

text \<open>\<^verbatim>\<open>calcPace()\<close> and \<^verbatim>\<open>calcSpeed()\<close>; the value they return is not used.\<close>

definition calcPace :: "workout \<Rightarrow> workout" where
  "calcPace this = this\<lparr>pace := Some (js_div (duration this) (distance this))\<rparr>"

definition calcSpeed :: "workout \<Rightarrow> workout" where
  "calcSpeed this =
     this\<lparr>speed := Some (js_div (distance this) (js_div (duration this) (Finite 60)))\<rparr>"

text \<open>The constructors of the two subclasses.\<close>

definition Running ::
  "clock \<Rightarrow> number \<times> number \<Rightarrow> number \<Rightarrow> number \<Rightarrow> number \<Rightarrow> error + workout" where
  "Running clk coords0 distance0 duration0 cadence0 =
     (let this = Workout clk coords0 distance0 duration0;
          this = this\<lparr>type' := Some ''running''\<rparr>;
          this = this\<lparr>cadence := Some cadence0\<rparr>;
          this = calcPace this
      in setDescription this)"

definition Cycling ::
  "clock \<Rightarrow> number \<times> number \<Rightarrow> number \<Rightarrow> number \<Rightarrow> number \<Rightarrow> error + workout" where
  "Cycling clk coords0 distance0 duration0 elevationGain0 =
     (let this = Workout clk coords0 distance0 duration0;
          this = this\<lparr>type' := Some ''cycling''\<rparr>;
          this = this\<lparr>elevationGain := Some elevationGain0\<rparr>;
          this = calcSpeed this
      in setDescription this)"

subsection \<open>Values, objects and JSON\<close>

text \<open>
  The collection holds whatever was pushed or loaded, so its entries are untyped values.
  An object is its own properties in creation order; prototypes are not represented (the
  program calls no method on a stored workout).
\<close>

datatype jsval =
    Undefined
  | Null
  | Boolean bool
  | Number number
  | Str string
  | DateObj date
  | Array "jsval list"
  | Object "(string \<times> jsval) list"

fun opt_prop :: "string \<Rightarrow> jsval option \<Rightarrow> (string \<times> jsval) list" where
  "opt_prop k None = []"
| "opt_prop k (Some v) = [(k, v)]"

text \<open>An instance of \<^verbatim>\<open>Running\<close> or \<^verbatim>\<open>Cycling\<close> as a value: its own properties.\<close>

definition object_of :: "workout \<Rightarrow> jsval" where
  "object_of w = Object
     ([(''date'', DateObj (date w)),
       (''id'', Str (id' w)),
       (''clicks'', Number (Finite (real (clicks w)))),
       (''coords'', Array [Number (fst (coords w)), Number (snd (coords w))]),
       (''distance'', Number (distance w)),
       (''duration'', Number (duration w))]
      @ opt_prop ''type'' (map_option Str (type' w))
      @ opt_prop ''cadence'' (map_option Number (cadence w))
      @ opt_prop ''pace'' (map_option Number (pace w))
      @ opt_prop ''elevationGain'' (map_option Number (elevationGain w))
      @ opt_prop ''speed'' (map_option Number (speed w))
      @ opt_prop ''description'' (map_option Str (description w)))"

text \<open>
  Reading a property \<^verbatim>\<open>v.k\<close>, for the names the program reads (none of them is a
  property of a primitive, an array or a date): undefined and null raise, an object
  gives the property or undefined.
\<close>

fun get :: "jsval \<Rightarrow> string \<Rightarrow> error + jsval" where
  "get Undefined k = Inl TypeError"
| "get Null k = Inl TypeError"
| "get (Object kvs) k = Inr (case map_of kvs k of None \<Rightarrow> Undefined | Some v \<Rightarrow> v)"
| "get _ k = Inr Undefined"

text \<open>\<^verbatim>\<open>!data\<close> is true on the falsy values.\<close>

fun truthy :: "jsval \<Rightarrow> bool" where
  "truthy Undefined = False"
| "truthy Null = False"
| "truthy (Boolean b) = b"
| "truthy (Number n) = (n \<noteq> NaN \<and> n \<noteq> Finite 0)"
| "truthy (Str s) = (s \<noteq> [])"
| "truthy _ = True"

text \<open>
  The text layer of JSON is the runtime's. A stored text is represented by what
  \<^verbatim>\<open>JSON.parse\<close> makes of it: the document it denotes, or nothing when it is not
  JSON text. Numbers of a document are finite.
\<close>

datatype json =
    JNull
  | JBool bool
  | JNumber real
  | JString string
  | JArray "json list"
  | JObject "(string \<times> json) list"

datatype stored = Document json | Malformed

text \<open>
  \<^verbatim>\<open>JSON.stringify\<close>: undefined has no serialisation (it is dropped from an object
  and written null in an array), a Number that is not finite is written null, a date is
  written as its \<^verbatim>\<open>toJSON()\<close> string.
\<close>

fun to_json :: "jsval \<Rightarrow> json option"
  and to_json_elems :: "jsval list \<Rightarrow> json list"
  and to_json_props :: "(string \<times> jsval) list \<Rightarrow> (string \<times> json) list" where
  "to_json Undefined = None"
| "to_json Null = Some JNull"
| "to_json (Boolean b) = Some (JBool b)"
| "to_json (Number n) = Some (case n of Finite r \<Rightarrow> JNumber r | _ \<Rightarrow> JNull)"
| "to_json (Str s) = Some (JString s)"
| "to_json (DateObj d) = Some (JString (toJSON d))"
| "to_json (Array vs) = Some (JArray (to_json_elems vs))"
| "to_json (Object kvs) = Some (JObject (to_json_props kvs))"
| "to_json_elems [] = []"
| "to_json_elems (v # vs) = (case to_json v of None \<Rightarrow> JNull | Some j \<Rightarrow> j) # to_json_elems vs"
| "to_json_props [] = []"
| "to_json_props (kv # kvs) =
     (case to_json (snd kv) of None \<Rightarrow> to_json_props kvs
      | Some j \<Rightarrow> (fst kv, j) # to_json_props kvs)"

text \<open>The text \<^verbatim>\<open>undefined\<close>, which \<^verbatim>\<open>setItem\<close> stores for undefined, is not JSON.\<close>

definition JSON_stringify :: "jsval \<Rightarrow> stored" where
  "JSON_stringify v = (case to_json v of None \<Rightarrow> Malformed | Some j \<Rightarrow> Document j)"

fun of_json :: "json \<Rightarrow> jsval"
  and of_json_elems :: "json list \<Rightarrow> jsval list"
  and of_json_props :: "(string \<times> json) list \<Rightarrow> (string \<times> jsval) list" where
  "of_json JNull = Null"
| "of_json (JBool b) = Boolean b"
| "of_json (JNumber r) = Number (Finite r)"
| "of_json (JString s) = Str s"
| "of_json (JArray js) = Array (of_json_elems js)"
| "of_json (JObject kjs) = Object (of_json_props kjs)"
| "of_json_elems [] = []"
| "of_json_elems (j # js) = of_json j # of_json_elems js"
| "of_json_props [] = []"
| "of_json_props (kj # kjs) = (fst kj, of_json (snd kj)) # of_json_props kjs"

text \<open>
  \<^verbatim>\<open>JSON.parse(localStorage.getItem(key))\<close>: a missing key reads null, which
  \<^verbatim>\<open>JSON.parse\<close> turns into the text \<^verbatim>\<open>null\<close> and parses; text that is not JSON
  raises \<^verbatim>\<open>SyntaxError\<close>.
\<close>

definition JSON_parse :: "stored option \<Rightarrow> error + jsval" where
  "JSON_parse item =
     (case item of
        None \<Rightarrow> Inr Null
      | Some Malformed \<Rightarrow> Inl SyntaxError
      | Some (Document j) \<Rightarrow> Inr (of_json j))"

subsection \<open>The class App\<close>

text \<open>
  The private fields of \<^verbatim>\<open>App\<close> and the storage it writes. \<open>map'\<close> is
  \<^verbatim>\<open>#map\<close>: \<open>None\<close> until \<^verbatim>\<open>_loadMap\<close> has run, then the centre of the view.
  \<open>mapEvent\<close> is \<^verbatim>\<open>#mapEvent\<close>, kept as the \<^verbatim>\<open>latlng\<close> of the click.
  \<open>workouts\<close> is \<^verbatim>\<open>#workouts\<close>: an array, unless a load has put another
  value there. The page (the form and the list) is not part of the state: of the
  rendering functions the model keeps what they read, and so where they raise.
\<close>

record app =
  map' :: "jsval option"
  mapEvent :: "(number \<times> number) option"
  workouts :: jsval
  localStorage :: "string \<Rightarrow> stored option"

text \<open>How a handler ends: it returns, returns the result of an alert, or raises.\<close>

datatype outcome = Returned | Alerted string | Thrown error

text \<open>
  The values of the form when it is submitted; the numeric ones are taken after the unary
  plus of the handler, which makes a Number of any text.
\<close>

record form =
  inputType :: string
  inputDistance :: number
  inputDuration :: number
  inputCadence :: number
  inputElevation :: number

text \<open>\<^verbatim>\<open>_showForm(mapE)\<close>\<close>

definition showForm :: "number \<times> number \<Rightarrow> app \<Rightarrow> app" where
  "showForm latlng s = s\<lparr>mapEvent := Some latlng\<rparr>"

text \<open>
  \<^verbatim>\<open>_renderWorkoutMarker(workout)\<close>: reads \<^verbatim>\<open>workout.coords\<close>, then hands the marker
  to \<^verbatim>\<open>#map\<close>, whose method Leaflet calls.
\<close>

definition renderWorkoutMarker :: "app \<Rightarrow> jsval \<Rightarrow> error + unit" where
  "renderWorkoutMarker s workout =
     (case get workout ''coords'' of
        Inl e \<Rightarrow> Inl e
      | Inr c \<Rightarrow> (case map' s of None \<Rightarrow> Inl TypeError | Some m \<Rightarrow> Inr ()))"

text \<open>\<^verbatim>\<open>v.toFixed(1)\<close>: only a Number has the method.\<close>

fun toFixed :: "jsval \<Rightarrow> error + unit" where
  "toFixed (Number n) = Inr ()"
| "toFixed _ = Inl TypeError"

text \<open>\<^verbatim>\<open>_renderWorkout(workout)\<close>\<close>

definition renderWorkout :: "jsval \<Rightarrow> error + unit" where
  "renderWorkout workout =
     (case get workout ''type'' of
        Inl e \<Rightarrow> Inl e
      | Inr t \<Rightarrow>
          (case (if t = Str ''running''
                 then (case get workout ''pace'' of Inl e \<Rightarrow> Inl e | Inr p \<Rightarrow> toFixed p)
                 else Inr ()) of
             Inl e \<Rightarrow> Inl e
           | Inr u \<Rightarrow>
               (if t = Str ''cycling''
                then (case get workout ''speed'' of Inl e \<Rightarrow> Inl e | Inr v \<Rightarrow> toFixed v)
                else Inr ())))"

text \<open>\<^verbatim>\<open>array.forEach(f)\<close>; a value that is not an array has no such method.\<close>

fun forEach_list :: "(jsval \<Rightarrow> error + unit) \<Rightarrow> jsval list \<Rightarrow> error + unit" where
  "forEach_list f [] = Inr ()"
| "forEach_list f (v # vs) = (case f v of Inl e \<Rightarrow> Inl e | Inr u \<Rightarrow> forEach_list f vs)"

fun forEach :: "(jsval \<Rightarrow> error + unit) \<Rightarrow> jsval \<Rightarrow> error + unit" where
  "forEach f (Array vs) = forEach_list f vs"
| "forEach f _ = Inl TypeError"

text \<open>\<^verbatim>\<open>array.push(v)\<close>\<close>

fun push :: "jsval \<Rightarrow> jsval \<Rightarrow> error + jsval" where
  "push (Array vs) v = Inr (Array (vs @ [v]))"
| "push _ v = Inl TypeError"

text \<open>\<^verbatim>\<open>array.find(work => work.id === id)\<close>: the first match, undefined when none.\<close>

fun find_list :: "string \<Rightarrow> jsval list \<Rightarrow> error + jsval" where
  "find_list i [] = Inr Undefined"
| "find_list i (work # ws) =
     (case get work ''id'' of
        Inl e \<Rightarrow> Inl e
      | Inr v \<Rightarrow> if v = Str i then Inr work else find_list i ws)"

fun find_by_id :: "string \<Rightarrow> jsval \<Rightarrow> error + jsval" where
  "find_by_id i (Array ws) = find_list i ws"
| "find_by_id i _ = Inl TypeError"

text \<open>\<^verbatim>\<open>_loadMap(position)\<close>\<close>

definition loadMap :: "number \<times> number \<Rightarrow> app \<Rightarrow> outcome \<times> app" where
  "loadMap position s =
     (let s1 = s\<lparr>map' := Some (Array [Number (fst position), Number (snd position)])\<rparr>
      in case forEach (renderWorkoutMarker s1) (workouts s1) of
           Inl e \<Rightarrow> (Thrown e, s1)
         | Inr u \<Rightarrow> (Returned, s1))"

text \<open>\<^verbatim>\<open>_setLocalStorage()\<close>\<close>

definition setLocalStorage :: "app \<Rightarrow> app" where
  "setLocalStorage s =
     s\<lparr>localStorage := (localStorage s)(''workouts'' \<mapsto> JSON_stringify (workouts s))\<rparr>"

text \<open>\<^verbatim>\<open>_getLocalStorage()\<close>\<close>

definition getLocalStorage :: "app \<Rightarrow> outcome \<times> app" where
  "getLocalStorage s =
     (case JSON_parse (localStorage s ''workouts'') of
        Inl e \<Rightarrow> (Thrown e, s)
      | Inr data \<Rightarrow>
          if \<not> truthy data then (Returned, s)
          else (let s1 = s\<lparr>workouts := data\<rparr>
                in case forEach renderWorkout (workouts s1) of
                     Inl e \<Rightarrow> (Thrown e, s1)
                   | Inr u \<Rightarrow> (Returned, s1)))"

text \<open>
  The constructor of \<^verbatim>\<open>App\<close> on a given storage: the field initialisers, then
  \<^verbatim>\<open>_getLocalStorage()\<close> (the position arrives later, through \<open>loadMap\<close>).
\<close>

definition App :: "(string \<Rightarrow> stored option) \<Rightarrow> outcome \<times> app" where
  "App storage =
     getLocalStorage \<lparr>map' = None, mapEvent = None, workouts = Array [], localStorage = storage\<rparr>"

text \<open>The two helpers of \<^verbatim>\<open>_newWorkout\<close>.\<close>

definition validInputs :: "number list \<Rightarrow> bool" where
  "validInputs inputs = list_all isFinite inputs"

definition allPositive :: "number list \<Rightarrow> bool" where
  "allPositive inputs = list_all (\<lambda>inp. js_gt inp (Finite 0)) inputs"

text \<open>
  \<^verbatim>\<open>_newWorkout(e)\<close>, first part: the two branches on the type, which leave the
  handler through the alert or go on with \<^verbatim>\<open>workout\<close>, undefined when neither ran.
\<close>

definition create_workout :: "clock \<Rightarrow> form \<Rightarrow> number \<times> number \<Rightarrow> outcome + jsval" where
  "create_workout clk f latlng =
     (let type0 = inputType f;
          distance0 = inputDistance f;
          duration0 = inputDuration f;
          workout = Undefined
      in case (if type0 = ''running'' then
                 (let cadence0 = inputCadence f
                  in if \<not> validInputs [distance0, duration0, cadence0] \<or>
                        \<not> allPositive [distance0, duration0, cadence0]
                     then Inl (Alerted ''Inputs have to be positive numbers.'')
                     else (case Running clk latlng distance0 duration0 cadence0 of
                             Inl e \<Rightarrow> Inl (Thrown e)
                           | Inr w \<Rightarrow> Inr (object_of w)))
               else Inr workout) of
           Inl out \<Rightarrow> Inl out
         | Inr workout \<Rightarrow>
             (if type0 = ''cycling'' then
                (let elevation0 = inputElevation f
                 in if \<not> validInputs [distance0, duration0, elevation0] \<or>
                       \<not> allPositive [distance0, duration0]
                    then Inl (Alerted ''Inputs have to be positive numbers.'')
                    else (case Cycling clk latlng distance0 duration0 elevation0 of
                            Inl e \<Rightarrow> Inl (Thrown e)
                          | Inr w \<Rightarrow> Inr (object_of w)))
              else Inr workout))"

text \<open>
  \<^verbatim>\<open>_newWorkout(e)\<close>: the click of the map is read first; after the branches the
  workout is pushed, rendered twice and the collection saved. \<^verbatim>\<open>_hideForm\<close> touches
  the form only.
\<close>

definition newWorkout :: "clock \<Rightarrow> form \<Rightarrow> app \<Rightarrow> outcome \<times> app" where
  "newWorkout clk f s =
     (case mapEvent s of
        None \<Rightarrow> (Thrown TypeError, s)
      | Some latlng \<Rightarrow>
          (case create_workout clk f latlng of
             Inl out \<Rightarrow> (out, s)
           | Inr workout \<Rightarrow>
               (case push (workouts s) workout of
                  Inl e \<Rightarrow> (Thrown e, s)
                | Inr ws \<Rightarrow>
                    (let s1 = s\<lparr>workouts := ws\<rparr>
                     in case renderWorkoutMarker s1 workout of
                          Inl e \<Rightarrow> (Thrown e, s1)
                        | Inr u \<Rightarrow>
                            (case renderWorkout workout of
                               Inl e \<Rightarrow> (Thrown e, s1)
                             | Inr u \<Rightarrow> (Returned, setLocalStorage s1))))))"

text \<open>
  \<^verbatim>\<open>_moveToPopup(e)\<close>. The argument is the \<^verbatim>\<open>data-id\<close> of the list entry that
  was clicked, \<open>None\<close> for a click outside every entry.
\<close>

definition moveToPopup :: "string option \<Rightarrow> app \<Rightarrow> outcome \<times> app" where
  "moveToPopup workoutEl s =
     (case workoutEl of
        None \<Rightarrow> (Returned, s)
      | Some dataset_id \<Rightarrow>
          (case find_by_id dataset_id (workouts s) of
             Inl e \<Rightarrow> (Thrown e, s)
           | Inr workout \<Rightarrow>
               (case map' s of
                  None \<Rightarrow> (Thrown TypeError, s)
                | Some m \<Rightarrow>
                    (case get workout ''coords'' of
                       Inl e \<Rightarrow> (Thrown e, s)
                     | Inr c \<Rightarrow> (Returned, s\<lparr>map' := Some c\<rparr>)))))"

subsection \<open>Notions of the specification\<close>

text \<open>
  The rule of the specification for a submitted form of type \<^verbatim>\<open>running\<close> or
  \<^verbatim>\<open>cycling\<close>: every numeric field is a finite number, and every field except the
  elevation gain is strictly positive.
\<close>

fun positive :: "number \<Rightarrow> bool" where
  "positive (Finite r) = (0 < r)"
| "positive Infinity = True"
| "positive _ = False"

definition acceptable :: "form \<Rightarrow> bool" where
  "acceptable f =
     (isFinite (inputDistance f) \<and> positive (inputDistance f) \<and>
      isFinite (inputDuration f) \<and> positive (inputDuration f) \<and>
      (if inputType f = ''running''
       then isFinite (inputCadence f) \<and> positive (inputCadence f)
       else isFinite (inputElevation f)))"

subsection \<open>Notions used in the statements\<close>

text \<open>A workout all of whose Numbers are finite, so that JSON can write them.\<close>

fun finite_opt :: "number option \<Rightarrow> bool" where
  "finite_opt None = True"
| "finite_opt (Some n) = isFinite n"

definition finite_numbers :: "workout \<Rightarrow> bool" where
  "finite_numbers w =
     (isFinite (fst (coords w)) \<and> isFinite (snd (coords w)) \<and>
      isFinite (distance w) \<and> isFinite (duration w) \<and>
      finite_opt (cadence w) \<and> finite_opt (pace w) \<and>
      finite_opt (elevationGain w) \<and> finite_opt (speed w))"

text \<open>The property \<open>k\<close> of every entry of a collection, in order.\<close>

fun fields_named :: "string \<Rightarrow> jsval \<Rightarrow> (error + jsval) list" where
  "fields_named k (Array vs) = map (\<lambda>v. get v k) vs"
| "fields_named k _ = []"

text \<open>A property as it reads after a reload when a date has become its ISO string.\<close>

fun date_as_string :: "error + jsval \<Rightarrow> error + jsval" where
  "date_as_string (Inr (DateObj d)) = Inr (Str (toJSON d))"
| "date_as_string r = r"

text \<open>
  The number that a string of decimal digits denotes, read from the left by the codes of
  its characters.
\<close>

definition digit_value :: "char \<Rightarrow> nat" where
  "digit_value c = of_char c - 48"

definition decimal_value :: "string \<Rightarrow> nat" where
  "decimal_value s = foldl (\<lambda>n c. 10 * n + digit_value c) 0 s"

text \<open>The last \<open>k\<close> decimal digits of a number, with leading zeros.\<close>

fun low_digits :: "nat \<Rightarrow> nat \<Rightarrow> string" where
  "low_digits 0 n = []"
| "low_digits (Suc k) n = low_digits k (n div 10) @ [digit_char (n mod 10)]"

subsection \<open>A session used in the examples\<close>

text \<open>
  14 July, a position, and the form of a run of 5 km in 30 minutes at 170 steps a minute.
  \<open>ex_app\<close> is the application after these events on an empty storage: start, map
  loaded, click on the map, form submitted.
\<close>

definition ex_date :: date where
  "ex_date = \<lparr>getMonth = 6, getDate = 14, toJSON = ''2025-07-14T10:00:00.123Z''\<rparr>"

definition ex_clock :: clock where
  "ex_clock = \<lparr>new_Date = ex_date, Date_now = 1752487200123\<rparr>"

definition ex_position :: "number \<times> number" where
  "ex_position = (Finite (407 / 10), Finite (- 74))"

definition ex_form :: form where
  "ex_form = \<lparr>inputType = ''running'', inputDistance = Finite 5, inputDuration = Finite 30,
     inputCadence = Finite 170, inputElevation = Finite 0\<rparr>"

definition ex_app :: app where
  "ex_app =
     snd (newWorkout ex_clock ex_form
       (showForm ex_position (snd (loadMap ex_position (snd (App Map.empty))))))"

text \<open>
  The application when the form is open (start, map loaded, click on the map), a form
  whose type is neither of the two, and a clock that reads ten thousand million
  milliseconds after the first.
\<close>

definition ex_ready :: app where
  "ex_ready = showForm ex_position (snd (loadMap ex_position (snd (App Map.empty))))"

definition ex_form_other :: form where
  "ex_form_other = \<lparr>inputType = ''swimming'', inputDistance = NaN, inputDuration = Finite 30,
     inputCadence = Finite 0, inputElevation = Finite 0\<rparr>"

definition ex_clock_later :: clock where
  "ex_clock_later =
     \<lparr>new_Date = \<lparr>getMonth = 10, getDate = 7, toJSON = ''2025-11-07T03:46:40.123Z''\<rparr>,
      Date_now = 1762487200123\<rparr>"

text \<open>
  The run of the example as an instance, a ride, and a collection that holds the run with
  its pace overwritten.
\<close>

definition ex_run :: workout where
  "ex_run = projr (Running ex_clock ex_position (Finite 5) (Finite 30) (Finite 170))"

definition ex_ride :: workout where
  "ex_ride = projr (Cycling ex_clock ex_position (Finite 20) (Finite 60) (Finite (- 35)))"

definition ex_loaded :: jsval where
  "ex_loaded = of_json (JObject [(''id'', JString ''0123456789''), (''type'', JString ''cycling''),
     (''speed'', JNumber 3)])"

definition ex_tampered :: "number \<Rightarrow> app" where
  "ex_tampered p =
     \<lparr>map' = None, mapEvent = None,
      workouts = Array [object_of (ex_run\<lparr>pace := Some p\<rparr>)],
      localStorage = Map.empty\<rparr>"

section \<open>Properties\<close>

subsection \<open>Evaluation and the constructors in closed form\<close>

lemmas ex_defs = ex_date_def ex_clock_def ex_position_def ex_form_def ex_form_other_def
  ex_clock_later_def

lemmas eval_defs = Running_def Cycling_def Workout_def calcPace_def calcSpeed_def
  setDescription_def months_def toUpperCase_def digit_char_def slice_last_def toString_int_def
  digits.simps Let_def object_of_def App_def getLocalStorage_def JSON_parse_def loadMap_def
  showForm_def newWorkout_def create_workout_def validInputs_def allPositive_def
  renderWorkoutMarker_def renderWorkout_def setLocalStorage_def JSON_stringify_def
  moveToPopup_def round64_def round_pos_def binade_def exp_hi.simps exp_lo.simps
  round_half_even_def

lemma js_gt_zero: "js_gt n (Finite 0) = positive n"
  by (cases n) simp_all

lemma Running_Inr:
  "Running clk xy d t c = Inr ((Workout clk xy d t)
     \<lparr>type' := Some ''running'', cadence := Some c, pace := Some (js_div t d),
      description := Some (''Running on '' @
        (if getMonth (new_Date clk) < 12 then months ! getMonth (new_Date clk)
         else ''undefined'') @ '' '' @ digits (getDate (new_Date clk)))\<rparr>)"
  by (simp add: Running_def Workout_def calcPace_def setDescription_def Let_def
      toUpperCase_def months_def)

lemma Cycling_Inr:
  "Cycling clk xy d t g = Inr ((Workout clk xy d t)
     \<lparr>type' := Some ''cycling'', elevationGain := Some g,
      speed := Some (js_div d (js_div t (Finite 60))),
      description := Some (''Cycling on '' @
        (if getMonth (new_Date clk) < 12 then months ! getMonth (new_Date clk)
         else ''undefined'') @ '' '' @ digits (getDate (new_Date clk)))\<rparr>)"
  by (simp add: Cycling_def Workout_def calcSpeed_def setDescription_def Let_def
      toUpperCase_def months_def)

subsection \<open>Rounding\<close>

text \<open>
  What \<open>round64\<close> computes, stated without its exponent search: in the normal range the
  result is within the relative error \<open>1 / 2 ^ 53\<close> of the real it rounds, below it
  within half the spacing of the subnormal doubles, from the overflow threshold on it is
  infinity, and at most half the least subnormal goes to zero.
\<close>

lemma round_half_even_bound: "\<bar>of_int (round_half_even y) - y\<bar> \<le> 1 / 2"
proof -
  have "of_int \<lfloor>y\<rfloor> \<le> y" and "y < of_int \<lfloor>y\<rfloor> + 1" by linarith+
  then show ?thesis
    by (auto simp add: round_half_even_def Let_def)
qed

lemma exp_hi_lower: "1 \<le> x \<Longrightarrow> 2 powi exp_hi x \<le> x"
proof (induction x rule: exp_hi.induct)
  case (1 x)
  show ?case
  proof (cases "2 \<le> x")
    case True
    with "1.IH" have "2 powi exp_hi (x / 2) \<le> x / 2" by simp
    then have "2 powi (exp_hi (x / 2) + 1) \<le> x" by (simp add: power_int_add)
    with True show ?thesis by (subst exp_hi.simps) simp
  next
    case False
    with "1.prems" show ?thesis by (subst exp_hi.simps) simp
  qed
qed

lemma exp_lo_lower:
  "- 1022 \<le> e \<Longrightarrow> 2 powi (- 1022) \<le> x * 2 powi e \<Longrightarrow> 2 powi exp_lo e x \<le> x * 2 powi e"
proof (induction e x rule: exp_lo.induct)
  case (1 e x)
  show ?case
  proof (cases "x < 1 \<and> - 1022 < e")
    case True
    have eq: "2 * x * 2 powi (e - 1) = x * 2 powi e"
      by (simp add: power_int_diff)
    from True have step: "exp_lo e x = exp_lo (e - 1) (2 * x)"
      by (subst exp_lo.simps) simp
    from True "1.prems" have "2 powi exp_lo (e - 1) (2 * x) \<le> 2 * x * 2 powi (e - 1)"
      by (intro "1.IH") (simp_all add: eq)
    then show ?thesis by (simp only: step eq)
  next
    case False
    show ?thesis
    proof (cases "x < 1")
      case True
      with False "1.prems" have "e = - 1022" by simp
      with "1.prems" False show ?thesis by (subst exp_lo.simps) simp
    next
      case stop: False
      have "0 < (2::real) powi e" by simp
      with stop have "2 powi e \<le> x * 2 powi e" by simp
      with False show ?thesis by (subst exp_lo.simps) simp
    qed
  qed
qed

lemma binade_lower: "2 powi (- 1022) \<le> x \<Longrightarrow> 2 powi binade x \<le> x"
  using exp_hi_lower [of x] exp_lo_lower [of 0 x] by (simp add: binade_def)

lemma round64_normal:
  assumes "2 powi (- 1022) \<le> x" and "x < 2 ^ 1024 - 2 ^ 970"
  shows "\<exists>r. round64 x = Finite r \<and> \<bar>r - x\<bar> \<le> x / 2 ^ 53"
proof -
  define q :: real where "q = 2 powi (binade x - 52)"
  have q: "0 < q" by (simp add: q_def)
  have "0 < (2::real) powi (- 1022)" by simp
  with assms(1) have pos: "0 < x" by linarith
  have r: "round64 x = Finite (q * of_int (round_half_even (x / q)))"
    using pos assms(2) by (simp add: round64_def round_pos_def Let_def q_def)
  have "\<bar>q * of_int (round_half_even (x / q)) - x\<bar> = q * \<bar>of_int (round_half_even (x / q)) - x / q\<bar>"
    using q by (simp add: abs_mult_pos' right_diff_distrib flip: abs_mult)
  also have "\<dots> \<le> q * (1 / 2)"
    using q round_half_even_bound [of "x / q"] by (intro mult_left_mono) simp_all
  also have "\<dots> = 2 powi binade x / 2 ^ 53"
    by (simp add: q_def power_int_diff)
  also have "\<dots> \<le> x / 2 ^ 53"
    using binade_lower [OF assms(1)] by (simp add: divide_right_mono)
  finally show ?thesis using r by blast
qed

lemma round64_overflow: "2 ^ 1024 - 2 ^ 970 \<le> x \<Longrightarrow> round64 x = Infinity"
proof -
  assume a: "2 ^ 1024 - 2 ^ 970 \<le> x"
  have "(0::real) < 2 ^ 1024 - 2 ^ 970" by simp
  with a have "0 < x" by linarith
  with a show ?thesis by (simp add: round64_def round_pos_def)
qed

lemma round64_underflow: "0 \<le> x \<Longrightarrow> x \<le> 2 powi (- 1075) \<Longrightarrow> round64 x = Finite 0"
proof -
  assume a: "0 \<le> x" "x \<le> 2 powi (- 1075)"
  show ?thesis
  proof (cases "x = 0")
    case True
    then show ?thesis by (simp add: round64_def)
  next
    case False
    with a have pos: "0 < x" by simp
    have lt: "(2::real) powi (- 1075) < 2 powi (- 1022)"
      by (intro power_int_strict_increasing) simp_all
    with a have small: "x < 2 powi (- 1022)" by linarith
    have "(2::real) powi (- 1022) \<le> 2 powi 0"
      by (intro power_int_increasing) simp_all
    with small have b: "binade x = - 1022" by (simp add: binade_def)
    have "x / 2 powi (- 1074) \<le> 2 powi (- 1075) / 2 powi (- 1074)"
      using a by (intro divide_right_mono) simp_all
    also have "\<dots> = 1 / 2" by (simp add: power_int_diff flip: power_int_diff)
    finally have le: "x / 2 powi (- 1074) \<le> 1 / 2" .
    moreover have "0 < x / 2 powi (- 1074)" using pos by simp
    ultimately have fl: "\<lfloor>x / 2 powi (- 1074)\<rfloor> = 0" by (simp add: floor_eq_iff)
    have "round_half_even (x / 2 powi (- 1074)) = 0"
      using le fl by (simp add: round_half_even_def Let_def)
    moreover have "x < 2 ^ 1024 - 2 ^ 970"
    proof -
      have "(2::real) powi (- 1022) \<le> 2 powi 0" by (intro power_int_increasing) simp_all
      moreover have "(1::real) < 2 ^ 1024 - 2 ^ 970" by simp
      ultimately show ?thesis using small by simp
    qed
    ultimately show ?thesis
      using pos b by (simp add: round64_def round_pos_def Let_def)
  qed
qed


lemma round_half_even_nonneg: "0 \<le> y \<Longrightarrow> 0 \<le> round_half_even y"
proof -
  assume "0 \<le> y"
  then have "0 \<le> \<lfloor>y\<rfloor>" by simp
  then show ?thesis by (simp add: round_half_even_def Let_def)
qed

lemma round64_subnormal:
  assumes "0 < x" and "x < 2 powi (- 1022)"
  shows "\<exists>r. round64 x = Finite r \<and> \<bar>r - x\<bar> \<le> 2 powi (- 1075)"
proof -
  have "(2::real) powi (- 1022) \<le> 2 powi 0" by (intro power_int_increasing) simp_all
  with assms have b: "binade x = - 1022" and lt: "x < 2 ^ 1024 - 2 ^ 970"
    by (simp_all add: binade_def)
  define q :: real where "q = 2 powi (- 1074)"
  have q: "0 < q" by (simp add: q_def)
  have r: "round64 x = Finite (q * of_int (round_half_even (x / q)))"
    using assms(1) lt b by (simp add: round64_def round_pos_def Let_def q_def)
  have "\<bar>q * of_int (round_half_even (x / q)) - x\<bar> = q * \<bar>of_int (round_half_even (x / q)) - x / q\<bar>"
    using q by (simp add: abs_mult_pos' right_diff_distrib flip: abs_mult)
  also have "\<dots> \<le> q * (1 / 2)"
    using q round_half_even_bound [of "x / q"] by (intro mult_left_mono) simp_all
  also have "\<dots> = 2 powi (- 1075)"
    by (simp add: q_def power_int_diff flip: power_int_diff)
  finally show ?thesis using r by blast
qed

lemma round64_nonneg:
  assumes "0 < x" and "round64 x = Finite r"
  shows "0 \<le> r"
proof (cases "2 ^ 1024 - 2 ^ 970 \<le> x")
  case True
  with assms show ?thesis by (simp add: round64_def round_pos_def)
next
  case False
  have "0 \<le> round_half_even (x / 2 powi (binade x - 52))"
    using assms(1) by (intro round_half_even_nonneg) simp
  moreover from False assms have
    "r = 2 powi (binade x - 52) * of_int (round_half_even (x / 2 powi (binade x - 52)))"
    by (simp add: round64_def round_pos_def Let_def)
  ultimately show ?thesis by simp
qed

text \<open>
  The quotient of two positive finite Numbers: infinity from the overflow threshold on,
  otherwise a finite Number that is not negative and lies within half a unit in the last
  place of the exact quotient.
\<close>

lemma js_div_positive:
  assumes "0 < a" and "0 < b"
  shows "js_div (Finite a) (Finite b) = round64 (a / b)"
    and "2 ^ 1024 - 2 ^ 970 \<le> a / b \<Longrightarrow> js_div (Finite a) (Finite b) = Infinity"
    and "a / b < 2 ^ 1024 - 2 ^ 970 \<Longrightarrow>
           \<exists>r. js_div (Finite a) (Finite b) = Finite r \<and> 0 \<le> r \<and>
               \<bar>r - a / b\<bar> \<le> max (a / b / 2 ^ 53) (2 powi (- 1075))"
proof -
  from assms have pos: "0 < a / b" by simp
  from assms show eq: "js_div (Finite a) (Finite b) = round64 (a / b)" by simp
  show "js_div (Finite a) (Finite b) = Infinity" if "2 ^ 1024 - 2 ^ 970 \<le> a / b"
    using that eq by (simp add: round64_overflow)
  show "\<exists>r. js_div (Finite a) (Finite b) = Finite r \<and> 0 \<le> r \<and>
               \<bar>r - a / b\<bar> \<le> max (a / b / 2 ^ 53) (2 powi (- 1075))"
    if lt: "a / b < 2 ^ 1024 - 2 ^ 970"
  proof -
    have "\<exists>r. round64 (a / b) = Finite r \<and> \<bar>r - a / b\<bar> \<le> max (a / b / 2 ^ 53) (2 powi (- 1075))"
    proof (cases "2 powi (- 1022) \<le> a / b")
      case True
      from round64_normal [OF True lt] obtain r where "round64 (a / b) = Finite r"
        and "\<bar>r - a / b\<bar> \<le> a / b / 2 ^ 53" by blast
      moreover from this(2) have "\<bar>r - a / b\<bar> \<le> max (a / b / 2 ^ 53) (2 powi (- 1075))"
        by (rule max.coboundedI1)
      ultimately show ?thesis by blast
    next
      case False
      then have "a / b < 2 powi (- 1022)" by simp
      from round64_subnormal [OF pos this] obtain r where "round64 (a / b) = Finite r"
        and "\<bar>r - a / b\<bar> \<le> 2 powi (- 1075)" by blast
      moreover from this(2) have "\<bar>r - a / b\<bar> \<le> max (a / b / 2 ^ 53) (2 powi (- 1075))"
        by (rule max.coboundedI2)
      ultimately show ?thesis by blast
    qed
    then obtain r where r: "round64 (a / b) = Finite r"
      and e: "\<bar>r - a / b\<bar> \<le> max (a / b / 2 ^ 53) (2 powi (- 1075))" by blast
    from round64_nonneg [OF pos r] have "0 \<le> r" .
    with r e eq show ?thesis by simp
  qed
qed

subsection \<open>Derived metrics\<close>

text \<open>
  Claim C5. For a distance, a duration and a cadence that are all positive, the constructor
  of \<^verbatim>\<open>Running\<close> returns an object (it does not raise) whose pace is what the
  division of the language gives for the duration by the distance, set by the constructor
  itself. That division is the exact quotient rounded to binary64: infinity when the
  quotient reaches the overflow threshold, otherwise a finite Number within half a unit in
  the last place of the quotient.
\<close>

theorem Running_pace:
  assumes "0 < distanceKm" and "0 < durationMin" and "0 < cadenceSpm"
  shows "\<exists>w. Running clk xy (Finite distanceKm) (Finite durationMin) (Finite cadenceSpm) = Inr w
           \<and> pace w = Some (js_div (Finite durationMin) (Finite distanceKm))
           \<and> pace w = Some (round64 (durationMin / distanceKm))
           \<and> (2 ^ 1024 - 2 ^ 970 \<le> durationMin / distanceKm \<longrightarrow> pace w = Some Infinity)
           \<and> (durationMin / distanceKm < 2 ^ 1024 - 2 ^ 970 \<longrightarrow>
                (\<exists>r. pace w = Some (Finite r) \<and>
                   \<bar>r - durationMin / distanceKm\<bar>
                     \<le> max (durationMin / distanceKm / 2 ^ 53) (2 powi (- 1075))))"
proof -
  let ?w = "(Workout clk xy (Finite distanceKm) (Finite durationMin))
     \<lparr>type' := Some ''running'', cadence := Some (Finite cadenceSpm),
      pace := Some (js_div (Finite durationMin) (Finite distanceKm)),
      description := Some (''Running on '' @
        (if getMonth (new_Date clk) < 12 then months ! getMonth (new_Date clk)
         else ''undefined'') @ '' '' @ digits (getDate (new_Date clk)))\<rparr>"
  have w: "Running clk xy (Finite distanceKm) (Finite durationMin) (Finite cadenceSpm) = Inr ?w"
    by (rule Running_Inr)
  have p: "pace ?w = Some (js_div (Finite durationMin) (Finite distanceKm))" by simp
  note q = js_div_positive [OF assms(2) assms(1)]
  from q(3) have "durationMin / distanceKm < 2 ^ 1024 - 2 ^ 970 \<longrightarrow>
                (\<exists>r. pace ?w = Some (Finite r) \<and>
                   \<bar>r - durationMin / distanceKm\<bar>
                     \<le> max (durationMin / distanceKm / 2 ^ 53) (2 powi (- 1075)))"
    unfolding p by blast
  moreover from q(2) have
    "2 ^ 1024 - 2 ^ 970 \<le> durationMin / distanceKm \<longrightarrow> pace ?w = Some Infinity"
    unfolding p by blast
  moreover from q(1) have "pace ?w = Some (round64 (durationMin / distanceKm))"
    unfolding p by simp
  ultimately show ?thesis using w p by blast
qed

theorem Running_pace_witness:
  "(\<exists>w. Running ex_clock ex_position (Finite 5) (Finite 30) (Finite 170) = Inr w
          \<and> pace w = Some (Finite 6))
   \<and> (\<exists>w. Running ex_clock ex_position (Finite 7) (Finite 25) (Finite 170) = Inr w
          \<and> pace w = Some (Finite (8042142191733029 / 2251799813685248)))
   \<and> js_div (Finite 1) (js_div (Finite 7) (Finite 25)) =
        Finite (2010535547933257 / 562949953421312)
   \<and> (\<exists>w. Running ex_clock ex_position (Finite (1 / 2 ^ 1000)) (Finite (2 ^ 1000)) (Finite 170)
            = Inr w \<and> pace w = Some Infinity)"
  using Running_pace [of 5 30 170 ex_clock ex_position]
    Running_pace [of 7 25 170 ex_clock ex_position]
    Running_pace [of "1 / 2 ^ 1000" "2 ^ 1000" 170 ex_clock ex_position]
  by (auto simp add: round64_def round_pos_def binade_def exp_hi.simps exp_lo.simps
      round_half_even_def Let_def)

text \<open>
  Claim C6. For a distance and a duration that are positive, the constructor of
  \<^verbatim>\<open>Cycling\<close> returns an object whose speed is what the two divisions of
  \<^verbatim>\<open>distance / (duration / 60)\<close> give, each rounded to binary64: the hours \<open>h\<close>
  are the rounded \<open>duration / 60\<close>, and the speed is the rounded \<open>distance / h\<close>,
  infinity when the hours have underflowed to zero. The elevation gain is any Number.
\<close>

theorem Cycling_speed:
  assumes "0 < distanceKm" and "0 < durationMin"
  shows "\<exists>w. Cycling clk xy (Finite distanceKm) (Finite durationMin) elevationGainM = Inr w
     \<and> speed w = Some (js_div (Finite distanceKm) (js_div (Finite durationMin) (Finite 60)))
     \<and> js_div (Finite durationMin) (Finite 60) = round64 (durationMin / 60)
     \<and> (2 ^ 1024 - 2 ^ 970 \<le> durationMin / 60 \<longrightarrow> speed w = Some (Finite 0))
     \<and> (durationMin / 60 < 2 ^ 1024 - 2 ^ 970 \<longrightarrow>
          (\<exists>h. js_div (Finite durationMin) (Finite 60) = Finite h \<and> 0 \<le> h
             \<and> \<bar>h - durationMin / 60\<bar> \<le> max (durationMin / 60 / 2 ^ 53) (2 powi (- 1075))
             \<and> (h = 0 \<longrightarrow> speed w = Some Infinity)
             \<and> (0 < h \<longrightarrow> speed w = Some (round64 (distanceKm / h)))
             \<and> (0 < h \<and> 2 ^ 1024 - 2 ^ 970 \<le> distanceKm / h \<longrightarrow> speed w = Some Infinity)
             \<and> (0 < h \<and> distanceKm / h < 2 ^ 1024 - 2 ^ 970 \<longrightarrow>
                  (\<exists>r. speed w = Some (Finite r) \<and>
                     \<bar>r - distanceKm / h\<bar> \<le> max (distanceKm / h / 2 ^ 53) (2 powi (- 1075))))))"
proof -
  let ?s = "js_div (Finite distanceKm) (js_div (Finite durationMin) (Finite 60))"
  let ?w = "(Workout clk xy (Finite distanceKm) (Finite durationMin))
     \<lparr>type' := Some ''cycling'', elevationGain := Some elevationGainM, speed := Some ?s,
      description := Some (''Cycling on '' @
        (if getMonth (new_Date clk) < 12 then months ! getMonth (new_Date clk)
         else ''undefined'') @ '' '' @ digits (getDate (new_Date clk)))\<rparr>"
  have w: "Cycling clk xy (Finite distanceKm) (Finite durationMin) elevationGainM = Inr ?w"
    by (rule Cycling_Inr)
  have p: "speed ?w = Some ?s" by simp
  have sixty: "(0::real) < 60" by simp
  note inner = js_div_positive [OF assms(2) sixty]
  have over: "speed ?w = Some (Finite 0)" if "2 ^ 1024 - 2 ^ 970 \<le> durationMin / 60"
    using inner(2) [OF that] by simp
  have fin: "\<exists>h. js_div (Finite durationMin) (Finite 60) = Finite h \<and> 0 \<le> h
             \<and> \<bar>h - durationMin / 60\<bar> \<le> max (durationMin / 60 / 2 ^ 53) (2 powi (- 1075))
             \<and> (h = 0 \<longrightarrow> speed ?w = Some Infinity)
             \<and> (0 < h \<longrightarrow> speed ?w = Some (round64 (distanceKm / h)))
             \<and> (0 < h \<and> 2 ^ 1024 - 2 ^ 970 \<le> distanceKm / h \<longrightarrow> speed ?w = Some Infinity)
             \<and> (0 < h \<and> distanceKm / h < 2 ^ 1024 - 2 ^ 970 \<longrightarrow>
                  (\<exists>r. speed ?w = Some (Finite r) \<and>
                     \<bar>r - distanceKm / h\<bar> \<le> max (distanceKm / h / 2 ^ 53) (2 powi (- 1075))))"
    if "durationMin / 60 < 2 ^ 1024 - 2 ^ 970"
  proof -
    from inner(3) [OF that] obtain h where
      h: "js_div (Finite durationMin) (Finite 60) = Finite h" and nn: "0 \<le> h"
      and e: "\<bar>h - durationMin / 60\<bar> \<le> max (durationMin / 60 / 2 ^ 53) (2 powi (- 1075))"
      by blast
    have zero: "?s = Infinity" if "h = 0"
      using that assms(1) by (simp only: h) simp
    have outer1: "?s = round64 (distanceKm / h)" if "0 < h"
      using js_div_positive(1) [OF assms(1) that] by (simp only: h)
    have outer2: "?s = Infinity" if "0 < h" and "2 ^ 1024 - 2 ^ 970 \<le> distanceKm / h"
      using js_div_positive(2) [OF assms(1) that] by (simp only: h)
    have outer3: "\<exists>r. ?s = Finite r \<and>
           \<bar>r - distanceKm / h\<bar> \<le> max (distanceKm / h / 2 ^ 53) (2 powi (- 1075))"
      if "0 < h" and "distanceKm / h < 2 ^ 1024 - 2 ^ 970"
      using js_div_positive(3) [OF assms(1) that] unfolding h by blast
    from h nn e zero outer1 outer2 outer3 show ?thesis
      unfolding p option.inject by blast
  qed
  show ?thesis
  proof (intro exI [of _ ?w] conjI impI)
    show "Cycling clk xy (Finite distanceKm) (Finite durationMin) elevationGainM = Inr ?w"
      by (rule w)
    show "speed ?w = Some ?s" by (rule p)
    show "js_div (Finite durationMin) (Finite 60) = round64 (durationMin / 60)"
      by (rule inner(1))
    show "speed ?w = Some (Finite 0)" if "2 ^ 1024 - 2 ^ 970 \<le> durationMin / 60"
      using that by (rule over)
    show "\<exists>h. js_div (Finite durationMin) (Finite 60) = Finite h \<and> 0 \<le> h
             \<and> \<bar>h - durationMin / 60\<bar> \<le> max (durationMin / 60 / 2 ^ 53) (2 powi (- 1075))
             \<and> (h = 0 \<longrightarrow> speed ?w = Some Infinity)
             \<and> (0 < h \<longrightarrow> speed ?w = Some (round64 (distanceKm / h)))
             \<and> (0 < h \<and> 2 ^ 1024 - 2 ^ 970 \<le> distanceKm / h \<longrightarrow> speed ?w = Some Infinity)
             \<and> (0 < h \<and> distanceKm / h < 2 ^ 1024 - 2 ^ 970 \<longrightarrow>
                  (\<exists>r. speed ?w = Some (Finite r) \<and>
                     \<bar>r - distanceKm / h\<bar> \<le> max (distanceKm / h / 2 ^ 53) (2 powi (- 1075))))"
      if "durationMin / 60 < 2 ^ 1024 - 2 ^ 970"
      using that by (rule fin)
  qed
qed

theorem Cycling_speed_witness:
  "(\<exists>w. Cycling ex_clock ex_position (Finite 20) (Finite 60) (Finite (- 35)) = Inr w
          \<and> speed w = Some (Finite 20))
   \<and> (\<exists>w. Cycling ex_clock ex_position (Finite 11) (Finite 11) (Finite 0) = Inr w
          \<and> speed w = Some (Finite (8444249301319681 / 140737488355328)))
   \<and> (\<exists>w. Cycling ex_clock ex_position (Finite 1) (Finite (1 / 2 ^ 1074)) (Finite 0) = Inr w
          \<and> speed w = Some Infinity)"
  using Cycling_speed [of 20 60 ex_clock ex_position "Finite (- 35)"]
    Cycling_speed [of 11 11 ex_clock ex_position "Finite 0"]
    Cycling_speed [of 1 "1 / 2 ^ 1074" ex_clock ex_position "Finite 0"]
  by (auto simp add: round64_def round_pos_def binade_def exp_hi.simps exp_lo.simps
      round_half_even_def Let_def)

subsection \<open>The handler of the form\<close>

lemma create_workout_running:
  assumes "inputType f = ''running''"
  shows "create_workout clk f latlng =
     (if acceptable f
      then Inr (object_of (projr (Running clk latlng (inputDistance f) (inputDuration f)
                                    (inputCadence f))))
      else Inl (Alerted ''Inputs have to be positive numbers.''))"
  using assms
  by (simp add: create_workout_def acceptable_def validInputs_def allPositive_def js_gt_zero
      Running_Inr Let_def conj_ac)

lemma create_workout_cycling:
  assumes "inputType f = ''cycling''"
  shows "create_workout clk f latlng =
     (if acceptable f
      then Inr (object_of (projr (Cycling clk latlng (inputDistance f) (inputDuration f)
                                    (inputElevation f))))
      else Inl (Alerted ''Inputs have to be positive numbers.''))"
  using assms
  by (simp add: create_workout_def acceptable_def validInputs_def allPositive_def js_gt_zero
      Cycling_Inr Let_def conj_ac)

lemma create_workout_other:
  assumes "inputType f \<noteq> ''running''" and "inputType f \<noteq> ''cycling''"
  shows "create_workout clk f latlng = Inr Undefined"
  using assms by (simp add: create_workout_def Let_def)

lemma newWorkout_Inl:
  "create_workout clk f latlng = Inl out \<Longrightarrow> mapEvent s = Some latlng \<Longrightarrow>
   newWorkout clk f s = (out, s)"
  by (simp add: newWorkout_def)

lemma newWorkout_no_event: "mapEvent s = None \<Longrightarrow> newWorkout clk f s = (Thrown TypeError, s)"
  by (simp add: newWorkout_def)

lemma newWorkout_Inr_not_alert:
  "create_workout clk f latlng = Inr v \<Longrightarrow> mapEvent s = Some latlng \<Longrightarrow>
   fst (newWorkout clk f s) \<noteq> Alerted msg"
  by (simp add: newWorkout_def Let_def split: sum.splits)

text \<open>
  Claim C3, as the code has it. A submitted form of type \<^verbatim>\<open>running\<close> or
  \<^verbatim>\<open>cycling\<close> that breaks the
  rule (a numeric field that is not finite, or a distance, a duration or a cadence that is
  not positive; the elevation gain need only be finite) makes no workout and leaves the
  whole state as it was, the collection and the storage included, and the handler does not
  run to its end. When the map has been clicked, the handler answers with the alert exactly
  for the forms that break the rule.
\<close>

theorem newWorkout_validation:
  assumes "inputType f = ''running'' \<or> inputType f = ''cycling''"
  shows "(\<not> acceptable f \<longrightarrow>
            create_workout clk f latlng = Inl (Alerted ''Inputs have to be positive numbers.'')
            \<and> snd (newWorkout clk f s) = s \<and> fst (newWorkout clk f s) \<noteq> Returned)
       \<and> (mapEvent s \<noteq> None \<longrightarrow>
            (fst (newWorkout clk f s) = Alerted ''Inputs have to be positive numbers.''
             \<longleftrightarrow> \<not> acceptable f))"
proof -
  let ?alert = "Alerted ''Inputs have to be positive numbers.''"
  have rej: "create_workout clk f xy = Inl ?alert" if "\<not> acceptable f" for xy
    using assms that by (auto simp add: create_workout_running create_workout_cycling)
  have acc: "\<exists>v. create_workout clk f xy = Inr v" if "acceptable f" for xy
    using assms that by (auto simp add: create_workout_running create_workout_cycling)
  have unchanged: "snd (newWorkout clk f s) = s \<and> fst (newWorkout clk f s) \<noteq> Returned"
    if "\<not> acceptable f"
  proof (cases "mapEvent s")
    case None
    then show ?thesis by (simp add: newWorkout_no_event)
  next
    case (Some xy)
    with rej [OF that] show ?thesis by (simp add: newWorkout_Inl)
  qed
  have alerted: "fst (newWorkout clk f s) = ?alert \<longleftrightarrow> \<not> acceptable f"
    if "mapEvent s = Some xy" for xy
  proof (cases "acceptable f")
    case True
    from acc [OF True] obtain v where "create_workout clk f xy = Inr v" by blast
    with that True show ?thesis by (simp add: newWorkout_Inr_not_alert)
  next
    case False
    with rej [OF False] that show ?thesis by (simp add: newWorkout_Inl)
  qed
  from rej unchanged alerted show ?thesis by auto
qed

theorem newWorkout_validation_witness:
  "\<not> acceptable (ex_form\<lparr>inputCadence := Finite 0\<rparr>)
   \<and> newWorkout ex_clock (ex_form\<lparr>inputCadence := Finite 0\<rparr>) ex_ready =
       (Alerted ''Inputs have to be positive numbers.'', ex_ready)
   \<and> workouts ex_ready = Array []
   \<and> acceptable ex_form
   \<and> fst (newWorkout ex_clock ex_form ex_ready) = Returned"
  using
    newWorkout_validation [of "ex_form\<lparr>inputCadence := Finite 0\<rparr>" ex_clock ex_position ex_ready]
    newWorkout_validation [of ex_form ex_clock ex_position ex_ready]
  by (simp add: ex_ready_def ex_defs eval_defs acceptable_def)

text \<open>
  Claim C3 as stated fails, for it speaks of every form: a form of type
  \<^verbatim>\<open>swimming\<close> whose distance is \<^verbatim>\<open>NaN\<close> breaks the rule, yet the handler
  gives no alert and the collection, empty before, holds an entry after.
\<close>

theorem newWorkout_validation_counterexample:
  "\<not> acceptable ex_form_other
   \<and> workouts ex_ready = Array []
   \<and> newWorkout ex_clock ex_form_other ex_ready =
       (Thrown TypeError, ex_ready\<lparr>workouts := Array [Undefined]\<rparr>)"
  by (simp add: ex_ready_def ex_defs eval_defs acceptable_def)

text \<open>
  Claim C10, as the code has it. A submitted form whose type is neither
  \<^verbatim>\<open>running\<close> nor \<^verbatim>\<open>cycling\<close> is not validated and makes no workout; after a
  click on the map, undefined is appended to the collection, and the handler then raises a
  \<^verbatim>\<open>TypeError\<close> in \<^verbatim>\<open>_renderWorkoutMarker\<close>, which reads \<^verbatim>\<open>coords\<close> of
  undefined: \<^verbatim>\<open>_setLocalStorage\<close> is not reached and the storage keeps what it held.
\<close>

theorem newWorkout_other_type:
  assumes "inputType f \<noteq> ''running''" and "inputType f \<noteq> ''cycling''"
    and "mapEvent s = Some latlng" and "workouts s = Array ws"
  shows "create_workout clk f latlng = Inr Undefined
       \<and> newWorkout clk f s = (Thrown TypeError, s\<lparr>workouts := Array (ws @ [Undefined])\<rparr>)
       \<and> localStorage (snd (newWorkout clk f s)) = localStorage s"
  using assms
  by (simp add: newWorkout_def create_workout_other renderWorkoutMarker_def)

theorem newWorkout_other_type_witness:
  "inputType ex_form_other \<noteq> ''running'' \<and> inputType ex_form_other \<noteq> ''cycling''
   \<and> mapEvent ex_ready = Some ex_position \<and> workouts ex_ready = Array []
   \<and> newWorkout ex_clock ex_form_other ex_ready =
       (Thrown TypeError, ex_ready\<lparr>workouts := Array [Undefined]\<rparr>)"
  using newWorkout_other_type [of ex_form_other ex_ready ex_position "[]" ex_clock]
  by (simp add: ex_ready_def ex_defs eval_defs)

text \<open>
  Claim C10 as stated fails: for the form of type \<^verbatim>\<open>swimming\<close> the handler raises,
  the collection holds undefined, and the storage has no entry, where saving the
  collection would have written \<^verbatim>\<open>[null]\<close>.
\<close>

theorem newWorkout_other_type_counterexample:
  "fst (newWorkout ex_clock ex_form_other ex_ready) = Thrown TypeError
   \<and> workouts (snd (newWorkout ex_clock ex_form_other ex_ready)) = Array [Undefined]
   \<and> localStorage (snd (newWorkout ex_clock ex_form_other ex_ready)) ''workouts'' = None
   \<and> localStorage (setLocalStorage (snd (newWorkout ex_clock ex_form_other ex_ready)))
        ''workouts'' = Some (Document (JArray [JNull]))"
  by (simp add: ex_ready_def ex_defs eval_defs)

subsection \<open>Decimal digits\<close>

lemma digit_char_inj: "a < 10 \<Longrightarrow> b < 10 \<Longrightarrow> digit_char a = digit_char b \<longleftrightarrow> a = b"
  unfolding digit_char_def by (rule nth_eq_iff_index_eq) simp_all

lemma digit_char_nonzero: "0 < a \<Longrightarrow> a < 10 \<Longrightarrow> digit_char a \<noteq> CHR ''0''"
  using digit_char_inj [of a 0] by (simp add: digit_char_def)

lemma digit_char_in: "a < 10 \<Longrightarrow> digit_char a \<in> set ''0123456789''"
  unfolding digit_char_def by (rule nth_mem) simp

lemma digits_nonempty: "digits n \<noteq> []"
  by (subst digits.simps) simp

lemma digits_hd: "0 < n \<Longrightarrow> hd (digits n) \<noteq> CHR ''0''"
proof (induction n rule: digits.induct)
  case (1 n)
  show ?case
  proof (cases "n < 10")
    case True
    with "1.prems" show ?thesis
      by (subst digits.simps) (simp add: digit_char_nonzero)
  next
    case False
    then have "0 < n div 10" by simp
    with False "1.IH" have "hd (digits (n div 10)) \<noteq> CHR ''0''" by simp
    with False show ?thesis
      by (subst digits.simps) (simp add: digits_nonempty)
  qed
qed

lemma digits_set: "set (digits n) \<subseteq> set ''0123456789''"
proof (induction n rule: digits.induct)
  case (1 n)
  show ?case
  proof (cases "n < 10")
    case True
    then show ?thesis
      using digit_char_in [of n] by (subst digits.simps) simp
  next
    case False
    with "1.IH" have "set (digits (n div 10)) \<subseteq> set ''0123456789''" by simp
    moreover have "digit_char (n mod 10) \<in> set ''0123456789''"
      by (rule digit_char_in) simp
    ultimately show ?thesis
      using False by (subst digits.simps) simp
  qed
qed

lemma digits_length: "10 ^ k \<le> n \<Longrightarrow> k < length (digits n)"
proof (induction k arbitrary: n)
  case 0
  then show ?case using digits_nonempty [of n] by (cases "digits n") simp_all
next
  case (Suc k)
  from Suc.prems have "10 * 10 ^ k \<le> n" by simp
  moreover have "(1::nat) \<le> 10 ^ k" by simp
  ultimately have ge: "\<not> n < 10" by linarith
  from Suc.prems have "10 ^ k \<le> n div 10" by (simp add: less_eq_div_iff_mult_less_eq)
  then have "k < length (digits (n div 10))" by (rule Suc.IH)
  with ge show ?case by (subst digits.simps) simp
qed

lemma slice_last_digits: "k \<le> length (digits n) \<Longrightarrow> slice_last k (digits n) = low_digits k n"
proof (induction k arbitrary: n)
  case 0
  then show ?case by (simp add: slice_last_def)
next
  case (Suc k)
  show ?case
  proof (cases "n < 10")
    case True
    then have d: "digits n = [digit_char n]" by (subst digits.simps) simp
    with Suc.prems have "k = 0" by simp
    with d True show ?thesis by (simp add: slice_last_def)
  next
    case False
    then have d: "digits n = digits (n div 10) @ [digit_char (n mod 10)]"
      by (subst digits.simps) simp
    with Suc.prems have le: "k \<le> length (digits (n div 10))" by simp
    then have "slice_last k (digits (n div 10)) = low_digits k (n div 10)" by (rule Suc.IH)
    with le d show ?thesis by (simp add: slice_last_def Suc_diff_le)
  qed
qed

lemma base10_unique:
  "10 * a + x = 10 * b + y \<Longrightarrow> x < 10 \<Longrightarrow> y < 10 \<Longrightarrow> a = b \<and> x = (y::nat)"
  by arith

lemma low_digits_eq: "low_digits k n = low_digits k m \<longleftrightarrow> n mod 10 ^ k = m mod 10 ^ k"
proof (induction k arbitrary: n m)
  case 0
  then show ?case by simp
next
  case (Suc k)
  have split: "x mod 10 ^ Suc k = 10 * ((x div 10) mod 10 ^ k) + x mod 10" for x :: nat
    by (simp add: mod_mult2_eq)
  have "low_digits (Suc k) n = low_digits (Suc k) m \<longleftrightarrow>
        low_digits k (n div 10) = low_digits k (m div 10) \<and> n mod 10 = m mod 10"
    by (simp add: digit_char_inj)
  also have "\<dots> \<longleftrightarrow> (n div 10) mod 10 ^ k = (m div 10) mod 10 ^ k \<and> n mod 10 = m mod 10"
    by (simp add: Suc.IH)
  also have "\<dots> \<longleftrightarrow> n mod 10 ^ Suc k = m mod 10 ^ Suc k"
  proof
    assume "(n div 10) mod 10 ^ k = (m div 10) mod 10 ^ k \<and> n mod 10 = m mod 10"
    then show "n mod 10 ^ Suc k = m mod 10 ^ Suc k" by (simp only: split)
  next
    assume a: "n mod 10 ^ Suc k = m mod 10 ^ Suc k"
    then have "10 * ((n div 10) mod 10 ^ k) + n mod 10 = 10 * ((m div 10) mod 10 ^ k) + m mod 10"
      by (simp only: split)
    then show "(n div 10) mod 10 ^ k = (m div 10) mod 10 ^ k \<and> n mod 10 = m mod 10"
      by (rule base10_unique) simp_all
  qed
  finally show ?case .
qed

lemma id_of_timestamp:
  assumes "10 ^ 9 \<le> t"
  shows "slice_last 10 (toString_int t) = low_digits 10 (nat t)"
proof -
  from assms have "1000000000 \<le> t" by simp
  then have "1000000000 \<le> nat t" by linarith
  then have "10 ^ 9 \<le> nat t" by simp
  then have "9 < length (digits (nat t))" by (rule digits_length)
  then have "slice_last 10 (digits (nat t)) = low_digits 10 (nat t)"
    by (intro slice_last_digits) simp
  with assms show ?thesis by (simp add: toString_int_def)
qed

lemma id_eq_iff:
  assumes "10 ^ 9 \<le> t1" and "10 ^ 9 \<le> t2"
  shows "slice_last 10 (toString_int t1) = slice_last 10 (toString_int t2)
         \<longleftrightarrow> t1 mod 10 ^ 10 = t2 mod 10 ^ 10"
proof -
  have m: "nat t mod 10 ^ 10 = nat (t mod 10 ^ 10)" if "10 ^ 9 \<le> t" for t :: int
    using that by (simp add: nat_mod_distrib)
  have "nat (t1 mod 10 ^ 10) = nat (t2 mod 10 ^ 10) \<longleftrightarrow> t1 mod 10 ^ 10 = t2 mod 10 ^ 10"
    by (simp add: eq_nat_nat_iff)
  then show ?thesis
    using assms by (simp only: id_of_timestamp low_digits_eq m)
qed

lemma digit_value_digit_char: "d < 10 \<Longrightarrow> digit_value (digit_char d) = d"
  by (auto simp add: digit_char_def digit_value_def less_Suc_eq eval_nat_numeral)

lemma decimal_value_snoc:
  "decimal_value (s @ [c]) = 10 * decimal_value s + digit_value c"
  by (simp add: decimal_value_def)

lemma decimal_value_digits: "decimal_value (digits n) = n"
proof (induction n rule: digits.induct)
  case (1 n)
  show ?case
  proof (cases "n < 10")
    case True
    then show ?thesis
      by (subst digits.simps) (simp add: decimal_value_def digit_value_digit_char)
  next
    case False
    with "1.IH" have "decimal_value (digits (n div 10)) = n div 10" by simp
    with False show ?thesis
      by (subst digits.simps) (simp add: decimal_value_snoc digit_value_digit_char)
  qed
qed

subsection \<open>The description\<close>

text \<open>
  Claim C7. For a date whose month is one of the twelve and whose day of the month is at
  least 1, as the getters of a valid date give them, each constructor returns an object
  whose description is the capitalised type, \<^verbatim>\<open>on\<close>, the full name of the month and
  the day in decimal digits: a string of digit characters, without a leading zero, that
  denotes the day of the month. The description is a function of the type and the date,
  written once by the constructor; \<^verbatim>\<open>click()\<close> does not touch it.
\<close>

theorem description_pattern:
  assumes "getMonth (new_Date clk) < 12" and "1 \<le> getDate (new_Date clk)"
  shows "(\<exists>w. Running clk xy d t c = Inr w
            \<and> description w = Some (''Running on '' @
                 [''January'', ''February'', ''March'', ''April'', ''May'', ''June'', ''July'',
                  ''August'', ''September'', ''October'', ''November'', ''December'']
                   ! getMonth (new_Date clk) @ '' '' @ digits (getDate (new_Date clk)))
            \<and> description (click w) = description w)
       \<and> (\<exists>w. Cycling clk xy d t g = Inr w
            \<and> description w = Some (''Cycling on '' @
                 [''January'', ''February'', ''March'', ''April'', ''May'', ''June'', ''July'',
                  ''August'', ''September'', ''October'', ''November'', ''December'']
                   ! getMonth (new_Date clk) @ '' '' @ digits (getDate (new_Date clk)))
            \<and> description (click w) = description w)
       \<and> decimal_value (digits (getDate (new_Date clk))) = getDate (new_Date clk)
       \<and> hd (digits (getDate (new_Date clk))) \<noteq> CHR ''0''
       \<and> set (digits (getDate (new_Date clk))) \<subseteq> set ''0123456789''"
proof -
  from assms(2) have "hd (digits (getDate (new_Date clk))) \<noteq> CHR ''0''"
    by (intro digits_hd) simp
  moreover note digits_set [of "getDate (new_Date clk)"]
  moreover note decimal_value_digits [of "getDate (new_Date clk)"]
  moreover from assms(1) have "\<exists>w. Running clk xy d t c = Inr w
            \<and> description w = Some (''Running on '' @
                 [''January'', ''February'', ''March'', ''April'', ''May'', ''June'', ''July'',
                  ''August'', ''September'', ''October'', ''November'', ''December'']
                   ! getMonth (new_Date clk) @ '' '' @ digits (getDate (new_Date clk)))
            \<and> description (click w) = description w"
    by (simp add: Running_Inr months_def click_def)
  moreover from assms(1) have "\<exists>w. Cycling clk xy d t g = Inr w
            \<and> description w = Some (''Cycling on '' @
                 [''January'', ''February'', ''March'', ''April'', ''May'', ''June'', ''July'',
                  ''August'', ''September'', ''October'', ''November'', ''December'']
                   ! getMonth (new_Date clk) @ '' '' @ digits (getDate (new_Date clk)))
            \<and> description (click w) = description w"
    by (simp add: Cycling_Inr months_def click_def)
  ultimately show ?thesis by blast
qed

theorem description_pattern_witness:
  "getMonth (new_Date ex_clock) < 12 \<and> 1 \<le> getDate (new_Date ex_clock)
   \<and> (\<exists>w. Running ex_clock ex_position (Finite 5) (Finite 30) (Finite 170) = Inr w
          \<and> description w = Some ''Running on July 14'')
   \<and> (\<exists>w. Cycling ex_clock ex_position (Finite 5) (Finite 30) (Finite (- 35)) = Inr w
          \<and> description w = Some ''Cycling on July 14'')
   \<and> (\<exists>w. Running ex_clock_later ex_position (Finite 5) (Finite 30) (Finite 170) = Inr w
          \<and> description w = Some ''Running on November 7'')
   \<and> decimal_value ''14'' = 14 \<and> decimal_value ''7'' = 7"
  using
    description_pattern [where clk = ex_clock and xy = ex_position and d = "Finite 5"
      and t = "Finite 30" and c = "Finite 170" and g = "Finite (- 35)"]
    description_pattern [where clk = ex_clock_later and xy = ex_position and d = "Finite 5"
      and t = "Finite 30" and c = "Finite 170" and g = "Finite (- 35)"]
  by (auto simp add: ex_defs digits.simps digit_char_def decimal_value_def digit_value_def)

subsection \<open>Identifiers\<close>

text \<open>
  Claim C9, as the code has it. The id of a workout is the last ten characters of the
  decimal string of \<^verbatim>\<open>Date.now()\<close> read at construction, and the subclasses keep
  it. For clock readings of at least ten digits, two workouts have the same id exactly
  when their readings agree modulo \<open>10 ^ 10\<close>: readings that differ by less than that
  give distinct ids, equal readings give equal ids.
\<close>

theorem id_from_timestamp:
  assumes "10 ^ 9 \<le> Date_now clk1" and "10 ^ 9 \<le> Date_now clk2"
  shows "id' (Workout clk1 xy1 d1 t1) = slice_last 10 (toString_int (Date_now clk1))
       \<and> (\<exists>w. Running clk1 xy1 d1 t1 c = Inr w \<and> id' w = id' (Workout clk1 xy1 d1 t1))
       \<and> (\<exists>w. Cycling clk1 xy1 d1 t1 g = Inr w \<and> id' w = id' (Workout clk1 xy1 d1 t1))
       \<and> (id' (Workout clk1 xy1 d1 t1) = id' (Workout clk2 xy2 d2 t2)
            \<longleftrightarrow> Date_now clk1 mod 10 ^ 10 = Date_now clk2 mod 10 ^ 10)"
proof -
  have "id' (Workout clk1 xy1 d1 t1) = id' (Workout clk2 xy2 d2 t2)
        \<longleftrightarrow> Date_now clk1 mod 10 ^ 10 = Date_now clk2 mod 10 ^ 10"
    using id_eq_iff [OF assms] by (simp add: Workout_def)
  then show ?thesis by (simp add: Running_Inr Cycling_Inr) (simp add: Workout_def)
qed

theorem id_from_timestamp_witness:
  "(10::int) ^ 9 \<le> Date_now ex_clock \<and> (10::int) ^ 9 \<le> Date_now ex_clock_later
   \<and> id' (Workout ex_clock ex_position (Finite 5) (Finite 30)) = ''2487200123''
   \<and> id' (Workout ex_clock ex_position (Finite 5) (Finite 30)) =
       id' (Workout ex_clock_later ex_position (Finite 20) (Finite 60))"
  using
    id_from_timestamp [where ?clk1.0 = ex_clock and ?clk2.0 = ex_clock_later
      and ?xy1.0 = ex_position and ?d1.0 = "Finite 5" and ?t1.0 = "Finite 30"
      and ?xy2.0 = ex_position and ?d2.0 = "Finite 20" and ?t2.0 = "Finite 60"]
  by (simp add: ex_defs Workout_def slice_last_def toString_int_def digits.simps digit_char_def)

text \<open>
  Claim C9 as stated fails: a run and a ride made at the same reading of the clock are two
  workouts with one id, and so are two runs made \<open>10 ^ 10\<close> milliseconds apart.
\<close>

theorem id_collision_counterexample:
  "ex_run \<noteq> ex_ride \<and> id' ex_run = id' ex_ride
   \<and> projr (Running ex_clock ex_position (Finite 5) (Finite 30) (Finite 170)) \<noteq>
       projr (Running ex_clock_later ex_position (Finite 5) (Finite 30) (Finite 170))
   \<and> id' (projr (Running ex_clock ex_position (Finite 5) (Finite 30) (Finite 170))) =
       id' (projr (Running ex_clock_later ex_position (Finite 5) (Finite 30) (Finite 170)))"
  by (simp add: ex_run_def ex_ride_def ex_defs eval_defs)

subsection \<open>Selecting a workout in the list\<close>

lemma find_list_absent:
  "\<forall>w \<in> set ws. \<exists>v. get w ''id'' = Inr v \<and> v \<noteq> Str i \<Longrightarrow> find_list i ws = Inr Undefined"
  by (induction ws) auto

text \<open>
  Claim C4, as the code has it. When no entry of the collection has the id that was
  clicked, the lookup itself gives undefined without raising, and \<^verbatim>\<open>_moveToPopup\<close>
  then raises a \<^verbatim>\<open>TypeError\<close>, either on \<^verbatim>\<open>#map\<close> when there is no map or on
  \<^verbatim>\<open>coords\<close> of undefined; the state is left as it was. A click outside every entry
  returns at once.
\<close>

theorem moveToPopup_absent_id:
  assumes "workouts s = Array ws"
    and "\<forall>w \<in> set ws. \<exists>v. get w ''id'' = Inr v \<and> v \<noteq> Str i"
  shows "find_by_id i (workouts s) = Inr Undefined
       \<and> moveToPopup (Some i) s = (Thrown TypeError, s)
       \<and> moveToPopup None s = (Returned, s)"
proof -
  from assms have "find_by_id i (workouts s) = Inr Undefined"
    by (simp add: find_list_absent)
  then show ?thesis
    by (simp add: moveToPopup_def split: option.splits)
qed

theorem moveToPopup_absent_id_witness:
  "workouts ex_app = Array [object_of ex_run]
   \<and> fields_named ''id'' (workouts ex_app) = [Inr (Str ''2487200123'')]
   \<and> find_by_id ''0000000000'' (workouts ex_app) = Inr Undefined
   \<and> moveToPopup (Some ''0000000000'') ex_app = (Thrown TypeError, ex_app)"
  using moveToPopup_absent_id [where s = ex_app and ws = "[object_of ex_run]"
      and i = "''0000000000''"]
  by (simp add: ex_app_def ex_run_def ex_defs eval_defs)

text \<open>
  Claim C4 as stated fails: in the session of the example the collection holds one workout,
  and a click that carries another id ends in a \<^verbatim>\<open>TypeError\<close>.
\<close>

theorem moveToPopup_absent_id_counterexample:
  "fields_named ''id'' (workouts ex_app) = [Inr (Str ''2487200123'')]
   \<and> fst (moveToPopup (Some ''0000000000'') ex_app) = Thrown TypeError"
  by (simp add: ex_app_def ex_defs eval_defs)

text \<open>
  Claim C8, as the code has it. \<^verbatim>\<open>click()\<close> adds one to \<^verbatim>\<open>clicks\<close> and changes
  no other field, but \<^verbatim>\<open>_moveToPopup\<close> does not call it: selecting a workout leaves
  the collection, every counter included, and the storage as they were.
\<close>

theorem click_not_called:
  "clicks (click w) = clicks w + 1 \<and> (click w)\<lparr>clicks := clicks w\<rparr> = w
   \<and> workouts (snd (moveToPopup el s)) = workouts s
   \<and> localStorage (snd (moveToPopup el s)) = localStorage s"
  by (simp add: click_def moveToPopup_def split: option.splits sum.splits)

text \<open>
  Claim C8 as stated fails: selecting the workout of the example returns normally and its
  counter is 0 before and after.
\<close>

theorem click_not_called_counterexample:
  "fields_named ''id'' (workouts ex_app) = [Inr (Str ''2487200123'')]
   \<and> fields_named ''clicks'' (workouts ex_app) = [Inr (Number (Finite 0))]
   \<and> fst (moveToPopup (Some ''2487200123'') ex_app) = Returned
   \<and> fields_named ''clicks'' (workouts (snd (moveToPopup (Some ''2487200123'') ex_app))) =
       [Inr (Number (Finite 0))]"
  by (simp add: ex_app_def ex_defs eval_defs)

subsection \<open>Loading\<close>

lemma truthy_of_json:
  "truthy (of_json j) \<longleftrightarrow> j \<noteq> JNull \<and> j \<noteq> JBool False \<and> j \<noteq> JNumber 0 \<and> j \<noteq> JString []"
  by (cases j) auto

lemma get_error: "get v k = Inl e \<Longrightarrow> e = TypeError"
  by (cases v) simp_all

lemma toFixed_error: "toFixed v = Inl e \<Longrightarrow> e = TypeError"
  by (cases v) simp_all

lemma renderWorkout_error: "renderWorkout v = Inl e \<Longrightarrow> e = TypeError"
  by (auto simp add: renderWorkout_def split: sum.splits if_splits
      dest: get_error toFixed_error)

lemma forEach_list_error: "forEach_list renderWorkout vs = Inl e \<Longrightarrow> e = TypeError"
  by (induction vs) (auto split: sum.splits dest: renderWorkout_error)

lemma forEach_error: "forEach renderWorkout v = Inl e \<Longrightarrow> e = TypeError"
  by (cases v) (auto dest: forEach_list_error)

text \<open>
  Claim C2, as the code has it. Stored text that is not JSON makes \<^verbatim>\<open>_getLocalStorage\<close>
  raise a \<^verbatim>\<open>SyntaxError\<close>, which nothing catches; the state is untouched. A missing
  key and the documents \<^verbatim>\<open>null\<close>, \<^verbatim>\<open>false\<close>, \<^verbatim>\<open>0\<close> and the empty string are
  taken as no data. Every other document becomes the collection as it is, whatever its
  structure, before anything is rendered, and no other stored value raises a
  \<^verbatim>\<open>SyntaxError\<close>.
\<close>

theorem getLocalStorage_stored:
  "(localStorage s ''workouts'' = Some Malformed \<longrightarrow>
      getLocalStorage s = (Thrown SyntaxError, s))
   \<and> (localStorage s ''workouts'' = None \<longrightarrow> getLocalStorage s = (Returned, s))
   \<and> (localStorage s ''workouts'' = Some (Document j) \<longrightarrow>
        (if j = JNull \<or> j = JBool False \<or> j = JNumber 0 \<or> j = JString []
         then getLocalStorage s = (Returned, s)
         else snd (getLocalStorage s) = s\<lparr>workouts := of_json j\<rparr>
              \<and> fst (getLocalStorage s) \<noteq> Thrown SyntaxError))"
  using truthy_of_json [of j]
  by (auto simp add: getLocalStorage_def JSON_parse_def Let_def split: sum.splits
      dest: forEach_error)

theorem getLocalStorage_stored_witness:
  "getLocalStorage (ex_app\<lparr>localStorage := [''workouts'' \<mapsto> Malformed]\<rparr>) =
      (Thrown SyntaxError, ex_app\<lparr>localStorage := [''workouts'' \<mapsto> Malformed]\<rparr>)
   \<and> getLocalStorage (ex_app\<lparr>localStorage := Map.empty\<rparr>) =
      (Returned, ex_app\<lparr>localStorage := Map.empty\<rparr>)
   \<and> workouts (snd (getLocalStorage
        (ex_app\<lparr>localStorage := [''workouts'' \<mapsto> Document (JArray [JNumber 7])]\<rparr>))) =
      Array [Number (Finite 7)]"
  using
    getLocalStorage_stored [where s = "ex_app\<lparr>localStorage := [''workouts'' \<mapsto> Malformed]\<rparr>"]
    getLocalStorage_stored [where s = "ex_app\<lparr>localStorage := Map.empty\<rparr>"]
    getLocalStorage_stored [where j = "JArray [JNumber 7]"
      and s = "ex_app\<lparr>localStorage := [''workouts'' \<mapsto> Document (JArray [JNumber 7])]\<rparr>"]
  by simp

text \<open>
  Claim C2 as stated fails: on text that is not JSON the constructor of \<^verbatim>\<open>App\<close>
  ends in a \<^verbatim>\<open>SyntaxError\<close>; on a stored record that has a type and no pace the
  record is installed in the collection and rendering it raises a \<^verbatim>\<open>TypeError\<close>.
\<close>

theorem getLocalStorage_counterexample:
  "fst (App [''workouts'' \<mapsto> Malformed]) = Thrown SyntaxError
   \<and> App [''workouts'' \<mapsto> Document (JArray [JObject [(''type'', JString ''running'')]])] =
       (Thrown TypeError,
        \<lparr>map' = None, mapEvent = None,
         workouts = Array [Object [(''type'', Str ''running'')]],
         localStorage =
           [''workouts'' \<mapsto> Document (JArray [JObject [(''type'', JString ''running'')]])]\<rparr>)"
  by (simp add: eval_defs)

subsection \<open>Saving and loading\<close>

lemma to_json_props_append:
  "to_json_props (xs @ ys) = to_json_props xs @ to_json_props ys"
  by (induction xs) (auto split: option.splits)

lemma of_json_props_append:
  "of_json_props (xs @ ys) = of_json_props xs @ of_json_props ys"
  by (induction xs) auto

lemma isFinite_iff: "isFinite n \<longleftrightarrow> (\<exists>r. n = Finite r)"
  by (cases n) simp_all

lemma opt_number_roundtrip:
  "finite_opt x \<Longrightarrow>
   of_json_props (to_json_props (opt_prop k (map_option Number x))) =
   opt_prop k (map_option Number x)"
  by (cases x) (auto simp add: isFinite_iff)

lemma opt_str_roundtrip:
  "of_json_props (to_json_props (opt_prop k (map_option Str x))) =
   opt_prop k (map_option Str x)"
  by (cases x) auto

text \<open>What a workout with finite numbers is after \<open>to_json\<close> and \<open>of_json\<close>.\<close>

lemma object_roundtrip:
  assumes "finite_numbers w"
  shows "\<exists>j. to_json (object_of w) = Some j \<and>
           of_json j = Object
             ([(''date'', Str (toJSON (date w))),
               (''id'', Str (id' w)),
               (''clicks'', Number (Finite (real (clicks w)))),
               (''coords'', Array [Number (fst (coords w)), Number (snd (coords w))]),
               (''distance'', Number (distance w)),
               (''duration'', Number (duration w))]
              @ opt_prop ''type'' (map_option Str (type' w))
              @ opt_prop ''cadence'' (map_option Number (cadence w))
              @ opt_prop ''pace'' (map_option Number (pace w))
              @ opt_prop ''elevationGain'' (map_option Number (elevationGain w))
              @ opt_prop ''speed'' (map_option Number (speed w))
              @ opt_prop ''description'' (map_option Str (description w)))"
proof -
  from assms obtain a b c d where
    "fst (coords w) = Finite a" "snd (coords w) = Finite b"
    "distance w = Finite c" "duration w = Finite d"
    by (auto simp add: finite_numbers_def isFinite_iff)
  moreover from assms have
    "finite_opt (cadence w)" "finite_opt (pace w)"
    "finite_opt (elevationGain w)" "finite_opt (speed w)"
    by (simp_all add: finite_numbers_def)
  ultimately show ?thesis
    by (simp add: object_of_def to_json_props_append of_json_props_append
        opt_number_roundtrip opt_str_roundtrip)
qed

lemma get_object_of:
  "get (object_of w) k =
     (if k = ''date'' then Inr (DateObj (date w))
      else Inr (case map_of
          ([(''id'', Str (id' w)),
            (''clicks'', Number (Finite (real (clicks w)))),
            (''coords'', Array [Number (fst (coords w)), Number (snd (coords w))]),
            (''distance'', Number (distance w)),
            (''duration'', Number (duration w))]
           @ opt_prop ''type'' (map_option Str (type' w))
           @ opt_prop ''cadence'' (map_option Number (cadence w))
           @ opt_prop ''pace'' (map_option Number (pace w))
           @ opt_prop ''elevationGain'' (map_option Number (elevationGain w))
           @ opt_prop ''speed'' (map_option Number (speed w))
           @ opt_prop ''description'' (map_option Str (description w))) k of
         None \<Rightarrow> Undefined | Some v \<Rightarrow> v))"
  by (simp add: object_of_def)

lemma opt_prop_no_date:
  "map_of (opt_prop k' (map_option Str x)) k \<noteq> Some (DateObj d)"
  "map_of (opt_prop k' (map_option Number y)) k \<noteq> Some (DateObj d)"
  by (cases x; simp) (cases y; simp)

lemma get_object_of_no_date:
  assumes "k \<noteq> ''date''"
  shows "get (object_of w) k \<noteq> Inr (DateObj d)"
  using assms opt_prop_no_date [of _ _ k d]
  by (auto simp add: get_object_of map_of_append split: option.splits if_splits)

lemma date_as_string_id: "(\<And>d. r \<noteq> Inr (DateObj d)) \<Longrightarrow> date_as_string r = r"
  by (cases r rule: date_as_string.cases) auto

lemma instance_roundtrip:
  assumes "finite_numbers w"
  shows "\<exists>j. to_json (object_of w) = Some j \<and>
           get (of_json j) k = date_as_string (get (object_of w) k)"
proof -
  from object_roundtrip [OF assms] obtain j where
    j: "to_json (object_of w) = Some j" and
    o: "of_json j = Object
             ([(''date'', Str (toJSON (date w))),
               (''id'', Str (id' w)),
               (''clicks'', Number (Finite (real (clicks w)))),
               (''coords'', Array [Number (fst (coords w)), Number (snd (coords w))]),
               (''distance'', Number (distance w)),
               (''duration'', Number (duration w))]
              @ opt_prop ''type'' (map_option Str (type' w))
              @ opt_prop ''cadence'' (map_option Number (cadence w))
              @ opt_prop ''pace'' (map_option Number (pace w))
              @ opt_prop ''elevationGain'' (map_option Number (elevationGain w))
              @ opt_prop ''speed'' (map_option Number (speed w))
              @ opt_prop ''description'' (map_option Str (description w)))"
    by blast
  show ?thesis
  proof (cases "k = ''date''")
    case True
    with j o show ?thesis by (simp add: get_object_of)
  next
    case False
    then have "date_as_string (get (object_of w) k) = get (object_of w) k"
      using get_object_of_no_date [of k w] by (intro date_as_string_id) auto
    with False j o show ?thesis by (simp add: get_object_of)
  qed
qed

lemma to_json_of_json:
  "to_json (of_json j) = Some j"
  "to_json_elems (of_json_elems js) = js"
  "to_json_props (of_json_props kjs) = kjs"
  by (induction j and js and kjs rule: of_json_of_json_elems_of_json_props.induct) simp_all

lemma of_json_no_date: "of_json j \<noteq> DateObj d"
  by (cases j) simp_all

lemma of_json_props_no_date: "map_of (of_json_props kjs) k \<noteq> Some (DateObj d)"
  by (induction kjs) (auto simp add: of_json_no_date)

lemma get_of_json_no_date: "get (of_json j) k \<noteq> Inr (DateObj d)"
  by (cases j) (auto simp add: of_json_props_no_date split: option.splits)

lemma loaded_roundtrip:
  "\<exists>j'. to_json (of_json j) = Some j' \<and>
         get (of_json j') k = date_as_string (get (of_json j) k)"
proof -
  have "date_as_string (get (of_json j) k) = get (of_json j) k"
    using get_of_json_no_date [of j k] by (intro date_as_string_id) auto
  then show ?thesis by (simp add: to_json_of_json)
qed

lemma elems_roundtrip:
  assumes "\<forall>v \<in> set vs. (\<exists>w. v = object_of w \<and> finite_numbers w) \<or> (\<exists>j. v = of_json j)"
  shows "map (\<lambda>v. get v k) (of_json_elems (to_json_elems vs)) =
         map date_as_string (map (\<lambda>v. get v k) vs)"
  using assms
proof (induction vs)
  case Nil
  then show ?case by simp
next
  case (Cons v vs)
  from Cons.prems have "(\<exists>w. v = object_of w \<and> finite_numbers w) \<or> (\<exists>j. v = of_json j)"
    by simp
  then obtain j where "to_json v = Some j"
    and "get (of_json j) k = date_as_string (get v k)"
    using instance_roundtrip [of _ k] loaded_roundtrip [of _ k] by metis
  with Cons show ?case by simp
qed

text \<open>
  Claim C1, as the code has it. Take a collection whose entries are workouts made by the
  constructors, or such workouts with fields overwritten, all their Numbers finite, or
  entries that came from an earlier load. Saving it and loading it gives as many entries,
  in the same order, and every property of every entry reads as before, except that a date
  reads as its ISO string. Nothing is computed again: an overwritten pace or speed comes
  back as it was written.
\<close>

theorem save_load_roundtrip:
  assumes "\<forall>v \<in> set vs. (\<exists>w. v = object_of w \<and> finite_numbers w) \<or> (\<exists>j. v = of_json j)"
  shows "fields_named k (workouts (snd (getLocalStorage (setLocalStorage
            (s\<lparr>workouts := Array vs\<rparr>))))) =
         map date_as_string (fields_named k (Array vs))"
proof -
  have "workouts (snd (getLocalStorage (setLocalStorage (s\<lparr>workouts := Array vs\<rparr>)))) =
        Array (of_json_elems (to_json_elems vs))"
    by (simp add: getLocalStorage_def setLocalStorage_def JSON_stringify_def JSON_parse_def
        Let_def split: sum.splits)
  with elems_roundtrip [OF assms, of k] show ?thesis by simp
qed

theorem save_load_roundtrip_witness:
  "finite_numbers (ex_run\<lparr>pace := Some (Finite 99)\<rparr>)
   \<and> fields_named ''pace'' (workouts (snd (getLocalStorage (setLocalStorage
        (ex_app\<lparr>workouts := Array [object_of (ex_run\<lparr>pace := Some (Finite 99)\<rparr>), ex_loaded]\<rparr>)))))
       = [Inr (Number (Finite 99)), Inr Undefined]
   \<and> fields_named ''distance'' (workouts (snd (getLocalStorage (setLocalStorage
        (ex_app\<lparr>workouts := Array [object_of (ex_run\<lparr>pace := Some (Finite 99)\<rparr>), ex_loaded]\<rparr>)))))
       = [Inr (Number (Finite 5)), Inr Undefined]
   \<and> fields_named ''date'' (workouts (snd (getLocalStorage (setLocalStorage
        (ex_app\<lparr>workouts := Array [object_of (ex_run\<lparr>pace := Some (Finite 99)\<rparr>), ex_loaded]\<rparr>)))))
       = [Inr (Str ''2025-07-14T10:00:00.123Z''), Inr Undefined]"
proof -
  have fin: "finite_numbers (ex_run\<lparr>pace := Some (Finite 99)\<rparr>)"
    by (simp add: finite_numbers_def ex_run_def ex_defs Running_Inr Workout_def)
  then have "\<exists>w. object_of (ex_run\<lparr>pace := Some (Finite 99)\<rparr>) = object_of w \<and> finite_numbers w"
    by blast
  moreover have "\<exists>j. ex_loaded = of_json j"
    unfolding ex_loaded_def by blast
  ultimately have h: "\<forall>v \<in> set [object_of (ex_run\<lparr>pace := Some (Finite 99)\<rparr>), ex_loaded].
      (\<exists>w. v = object_of w \<and> finite_numbers w) \<or> (\<exists>j. v = of_json j)"
    by simp
  have run: "object_of (ex_run\<lparr>pace := Some (Finite 99)\<rparr>) = Object
     [(''date'', DateObj ex_date), (''id'', Str ''2487200123''), (''clicks'', Number (Finite 0)),
      (''coords'', Array [Number (Finite (407 / 10)), Number (Finite (- 74))]),
      (''distance'', Number (Finite 5)), (''duration'', Number (Finite 30)),
      (''type'', Str ''running''), (''cadence'', Number (Finite 170)),
      (''pace'', Number (Finite 99)), (''description'', Str ''Running on July 14'')]"
    by (simp add: ex_run_def ex_defs eval_defs)
  show ?thesis
    using fin save_load_roundtrip [OF h, of "''pace''" ex_app]
      save_load_roundtrip [OF h, of "''distance''" ex_app]
      save_load_roundtrip [OF h, of "''date''" ex_app]
    by (simp add: run ex_loaded_def ex_date_def)
qed

text \<open>
  Claim C1 as stated fails: a pace overwritten with \<^verbatim>\<open>NaN\<close> comes back as null, and
  the date of a workout comes back as a string.
\<close>

theorem save_load_counterexample:
  "fields_named ''pace'' (workouts (ex_tampered NaN)) = [Inr (Number NaN)]
   \<and> fields_named ''pace'' (workouts (snd (getLocalStorage (setLocalStorage (ex_tampered NaN)))))
       = [Inr Null]
   \<and> fields_named ''date'' (workouts (ex_tampered NaN)) = [Inr (DateObj ex_date)]
   \<and> fields_named ''date'' (workouts (snd (getLocalStorage (setLocalStorage (ex_tampered NaN)))))
       = [Inr (Str ''2025-07-14T10:00:00.123Z'')]"
  by (simp add: ex_tampered_def ex_run_def ex_defs eval_defs)

end
